theory Spec2Isabelle
  imports Main "HOL-Library.Sublist"
begin

section \<open>LangchainAgent: the adapter of crewai/agents/Third_Party_Agents/langchain_custom/agent.py\<close>

text \<open>
  The class wraps external collaborators (the agent executor, the prompt builder, the
  contextual memory, the rate-limit controller, the i18n table, the language model).
  Their behaviour is not part of the file, so each call to one of them is a function of an
  environment record, returning either the exception it raises or its value. Opaque Python
  objects (\<open>Any\<close>) are values of the type variable \<open>'o\<close>; a string is a list of
  characters with code points below 256.
\<close>

subsection \<open>Exceptions and results\<close>

datatype exn =
    ModuleNotFoundError
  | IndexError
  | TypeError
  | KeyError
  | AttributeError
  | ValueError
  | ExternalError nat

type_synonym 'a result = "exn + 'a"

text \<open>Sequencing: the first exception ends the computation.\<close>

fun and_then :: "'a result \<Rightarrow> ('a \<Rightarrow> 'b result) \<Rightarrow> 'b result" where
  "and_then (Inl e) f = Inl e"
| "and_then (Inr x) f = f x"

text \<open>A call made for its effect only: it raises or it returns nothing.\<close>

fun check :: "exn option \<Rightarrow> unit result" where
  "check None = Inr ()"
| "check (Some e) = Inl e"

subsection \<open>Python built-ins used by the file\<close>

text \<open>\<open>x or y\<close> on optional lists: \<open>None\<close> and the empty list are falsy.\<close>

fun list_or :: "'a list option \<Rightarrow> 'a list option \<Rightarrow> 'a list option" where
  "list_or (Some (t # ts)) y = Some (t # ts)"
| "list_or x y = y"

text \<open>Truthiness of an optional integer (\<open>if self.max_rpm:\<close>).\<close>

fun int_truthy :: "int option \<Rightarrow> bool" where
  "int_truthy None = False"
| "int_truthy (Some n) = (n \<noteq> 0)"

text \<open>\<open>str.strip()\<close> without argument removes leading and trailing whitespace. Below 256
  the whitespace characters of Python (\<open>str.isspace\<close>) are 0x09 to 0x0D, 0x1C to 0x1F, the
  space 0x20, the next-line character 0x85 and the no-break space 0xA0.\<close>

definition is_space :: "char \<Rightarrow> bool" where
  "is_space c =
     (let n = (of_char c :: nat)
      in (9 \<le> n \<and> n \<le> 13) \<or> (28 \<le> n \<and> n \<le> 32) \<or> n = 133 \<or> n = 160)"

definition strip :: "string \<Rightarrow> string" where
  "strip s = rev (dropWhile is_space (rev (dropWhile is_space s)))"

text \<open>\<open>s.split(sep)\<close> for a non-empty separator: the pieces between the non-overlapping
  occurrences of \<open>sep\<close>, found from the left. \<open>cur\<close> is the piece being read.\<close>

function split_from :: "string \<Rightarrow> string \<Rightarrow> string \<Rightarrow> string list" where
  "split_from sep cur s =
     (if s = [] then [cur]
      else if sep \<noteq> [] \<and> prefix sep s then cur # split_from sep [] (drop (length sep) s)
      else split_from sep (cur @ [hd s]) (tl s))"
  by pat_completeness auto
termination
  by (relation "measure (\<lambda>(sep, cur, s). length s)") auto

definition str_split :: "string \<Rightarrow> string \<Rightarrow> string list" where
  "str_split s sep = split_from sep [] s"

declare split_from.simps [simp del]

subsection \<open>format_log_to_str\<close>

record agent_action =
  tool :: string
  tool_input :: string
  log :: string

text \<open>The loop body: \<open>thoughts += action.log\<close>, then the f-string
  \<open>"\n{observation_prefix}{observation}\n{llm_prefix}"\<close>.\<close>

fun format_log_loop ::
  "(agent_action \<times> string) list \<Rightarrow> string \<Rightarrow> string \<Rightarrow> string \<Rightarrow> string" where
  "format_log_loop [] observation_prefix llm_prefix thoughts = thoughts"
| "format_log_loop ((action, observation) # rest) observation_prefix llm_prefix thoughts =
     format_log_loop rest observation_prefix llm_prefix
       ((thoughts @ log action)
          @ ([CHR 0x0A] @ observation_prefix @ observation @ [CHR 0x0A] @ llm_prefix))"

definition format_log_to_str ::
  "(agent_action \<times> string) list \<Rightarrow> string \<Rightarrow> string \<Rightarrow> string" where
  "format_log_to_str intermediate_steps observation_prefix llm_prefix =
     format_log_loop intermediate_steps observation_prefix llm_prefix []"

text \<open>What one (action, observation) pair contributes, in the claim's words.\<close>

definition step_text :: "string \<Rightarrow> string \<Rightarrow> agent_action \<times> string \<Rightarrow> string" where
  "step_text observation_prefix llm_prefix p =
     log (fst p) @ [CHR 0x0A] @ observation_prefix @ snd p @ [CHR 0x0A] @ llm_prefix"

subsection \<open>Objects\<close>

text \<open>A tool is an instance of \<open>crewai_tools.BaseTool\<close> (imported as \<open>CrewAITool\<close>) or
  anything else; \<open>isinstance(tool, CrewAITool)\<close> tells the two apart.\<close>

datatype 'o tool = CrewAITool 'o | OtherTool 'o

fun is_crewai_tool :: "'o tool \<Rightarrow> bool" where
  "is_crewai_tool (CrewAITool x) = True"
| "is_crewai_tool (OtherTool x) = False"

text \<open>The bound method \<open>self._rpm_controller.check_or_wait\<close> of a controller object.\<close>

datatype 'o method_ref = CheckOrWait 'o

text \<open>A reference back to the agent itself (\<open>crew_agent=self\<close>, \<open>CrewAgentParser(agent=self)\<close>).\<close>

datatype agent_ref = Self

record 'o crew =
  memory :: bool
  short_term_memory :: 'o
  long_term_memory :: 'o
  entity_memory :: 'o

text \<open>The input \<open>x\<close> of the runnable's first stage and the lambdas of \<open>agent_args\<close>.\<close>

record run_input =
  x_input :: string
  x_tools :: string
  x_tool_names :: string
  x_intermediate_steps :: "(agent_action \<times> string) list"

definition agent_args :: "run_input \<Rightarrow> (string \<times> string) list" where
  "agent_args x =
     [(''input'', x_input x),
      (''tools'', x_tools x),
      (''tool_names'', x_tool_names x),
      (''agent_scratchpad'', format_log_to_str (x_intermediate_steps x) ''Observation: '' [])]"

text \<open>\<open>agent_args | execution_prompt | bind | CrewAgentParser(agent=self)\<close>: the four stages.\<close>

record 'o runnable =
  r_args :: "run_input \<Rightarrow> (string \<times> string) list"
  r_prompt :: 'o
  r_llm :: 'o
  r_parser :: agent_ref

text \<open>The executor is the external \<open>CrewAgentExecutor\<close>: it is represented by the keyword
  arguments of its construction (\<open>ex_agent\<close> holds the runnable given to \<open>RunnableAgent\<close>)
  and by the attributes \<open>execute_task\<close> assigns afterwards.\<close>

record 'o executor =
  ex_agent :: "'o runnable"
  ex_llm :: 'o
  ex_i18n :: 'o
  ex_crew :: "'o crew option"
  ex_crew_agent :: agent_ref
  ex_tools :: "'o tool list"
  ex_verbose :: bool
  ex_original_tools :: "'o tool list option"
  ex_handle_parsing_errors :: bool
  ex_max_iterations :: "int option"
  ex_max_execution_time :: "int option"
  ex_step_callback :: "'o option"
  ex_tools_handler :: "'o option"
  ex_function_calling_llm :: "'o option"
  ex_callbacks :: "'o list option"
  ex_request_within_rpm_limit :: "'o method_ref option"
  ex_task :: "'o option"
  ex_tools_description :: "string option"
  ex_tools_names :: "string option"

text \<open>The fields of \<open>LangchainAgent\<close> that the three routines read or write. Those not
  declared in the file (role, goal, backstory, max_iter, max_rpm, verbose, i18n, crew, tools,
  tools_handler, _rpm_controller, agent_executor) are inherited from \<open>BaseAgent\<close> and typed
  by their uses here.\<close>

record 'o agent =
  role :: string
  goal :: string
  backstory :: string
  llm :: 'o
  function_calling_llm :: "'o option"
  callbacks :: "'o list option"
  step_callback :: "'o option"
  max_execution_time :: "int option"
  max_iter :: "int option"
  max_rpm :: "int option"
  verbose :: bool
  i18n :: 'o
  crew :: "'o crew option"
  tools :: "'o tool list option"
  tools_handler :: "'o option"
  rpm_controller :: "'o option"
  system_template :: "string option"
  prompt_template :: "string option"
  response_template :: "string option"
  agent_executor :: "'o executor option"

text \<open>Calls whose effect is on a collaborator, logged when they have been made:
  \<open>tools_handler.last_used_tool = {}\<close> (once it has returned), \<open>agent_executor.invoke(...)\<close>
  with its argument, \<open>_rpm_controller.stop_rpm_counter()\<close>.\<close>

datatype 'o event =
    ResetLastUsedTool 'o
  | Invoke "(string \<times> string) list"
  | StopRpmCounter 'o

fun is_rpm_event :: "'o event \<Rightarrow> bool" where
  "is_rpm_event (StopRpmCounter c) = True"
| "is_rpm_event e = False"

subsection \<open>The collaborators\<close>

text \<open>
  \<open>crewai_tools_import\<close> is the outcome of \<open>from crewai_tools import BaseTool\<close> (\<open>None\<close>: it
  succeeds); \<open>to_langchain\<close> is \<open>tool.to_langchain()\<close>; \<open>task_prompt\<close> is \<open>task.prompt()\<close>;
  \<open>i18n_slice\<close> is \<open>self.i18n.slice(name)\<close>; \<open>str_format\<close> is \<open>template.format(**kwargs)\<close>;
  \<open>build_context_for_task\<close> is \<open>ContextualMemory(stm, ltm, em).build_context_for_task(task,
  context)\<close>; \<open>prompts_task_execution\<close> is \<open>Prompts(i18n, tools, system_template,
  prompt_template, response_template).task_execution()\<close>; \<open>prompt_partial\<close> is
  \<open>prompt.partial(goal, role, backstory)\<close>; \<open>llm_bind\<close> is \<open>llm.bind(stop=stop_words)\<close>;
  \<open>tool_name\<close> is \<open>t.name\<close>; \<open>executor_invoke\<close> is \<open>agent_executor.invoke(d)\<close>.

  Line 220 is \<open>agent_args | execution_prompt | bind | CrewAgentParser(agent=self)\<close>:
  \<open>pipe_prompt\<close> is the first \<open>|\<close>, \<open>pipe_llm\<close> the second, \<open>crew_agent_parser\<close> the
  construction of the parser and \<open>pipe_parser\<close> the third \<open>|\<close>, in the order Python evaluates
  them. \<open>runnable_agent\<close> is \<open>RunnableAgent(runnable=inner_agent)\<close> and
  \<open>crew_agent_executor\<close> is \<open>CrewAgentExecutor(agent=..., **executor_args)\<close> with the
  storing of the result in \<open>self.agent_executor\<close>; each is given what it is applied to and
  tells whether it raises. \<open>reset_last_used_tool\<close> is the assignment
  \<open>self.tools_handler.last_used_tool = {}\<close> and \<open>executor_setattr name ex\<close> the assignment of
  the attribute \<open>name\<close> of the executor, \<open>ex\<close> being the executor with the new value.
\<close>

record 'o env =
  crewai_tools_import :: "exn option"
  to_langchain :: "'o \<Rightarrow> 'o tool result"
  task_prompt :: "'o \<Rightarrow> string result"
  i18n_slice :: "'o \<Rightarrow> string \<Rightarrow> string result"
  str_format :: "string \<Rightarrow> (string \<times> string) list \<Rightarrow> string result"
  build_context_for_task :: "'o \<times> 'o \<times> 'o \<Rightarrow> 'o \<Rightarrow> string option \<Rightarrow> string result"
  prompts_task_execution ::
    "'o \<Rightarrow> 'o tool list option \<Rightarrow> string option \<Rightarrow> string option \<Rightarrow> string option \<Rightarrow> 'o result"
  prompt_partial :: "'o \<Rightarrow> string \<Rightarrow> string \<Rightarrow> string \<Rightarrow> 'o result"
  llm_bind :: "'o \<Rightarrow> string list \<Rightarrow> 'o result"
  render_text_description :: "'o tool list \<Rightarrow> string result"
  tool_name :: "'o tool \<Rightarrow> string result"
  executor_invoke :: "'o executor \<Rightarrow> (string \<times> string) list \<Rightarrow> (string \<times> string) list result"
  stop_rpm_counter :: "'o \<Rightarrow> exn option"
  pipe_prompt :: "'o \<Rightarrow> exn option"
  pipe_llm :: "'o \<Rightarrow> 'o \<Rightarrow> exn option"
  crew_agent_parser :: "exn option"
  pipe_parser :: "'o \<Rightarrow> 'o \<Rightarrow> exn option"
  runnable_agent :: "'o runnable \<Rightarrow> exn option"
  crew_agent_executor :: "'o executor \<Rightarrow> exn option"
  reset_last_used_tool :: "'o \<Rightarrow> exn option"
  executor_setattr :: "string \<Rightarrow> 'o executor \<Rightarrow> exn option"

subsection \<open>_parse_tools\<close>

text \<open>The loop of the \<open>try\<close> block. It returns the list built so far and the exception that
  interrupted it, if any: \<open>tools_list\<close> is not reset when the handler runs.\<close>

fun convert_loop :: "'o env \<Rightarrow> 'o tool list \<Rightarrow> 'o tool list \<Rightarrow> 'o tool list \<times> exn option" where
  "convert_loop env [] tools_list = (tools_list, None)"
| "convert_loop env (CrewAITool x # rest) tools_list =
     (case to_langchain env x of
        Inl e \<Rightarrow> (tools_list, Some e)
      | Inr t \<Rightarrow> convert_loop env rest (tools_list @ [t]))"
| "convert_loop env (OtherTool x # rest) tools_list =
     convert_loop env rest (tools_list @ [OtherTool x])"

text \<open>\<open>except ModuleNotFoundError\<close>: every tool is appended as it is; any other exception
  leaves the function. Iterating over \<open>None\<close> raises \<open>TypeError\<close>.\<close>

definition on_exception :: "exn \<Rightarrow> 'o tool list option \<Rightarrow> 'o tool list \<Rightarrow> 'o tool list result" where
  "on_exception e tools_arg tools_list =
     (if e = ModuleNotFoundError
      then (case tools_arg of None \<Rightarrow> Inl TypeError | Some ts \<Rightarrow> Inr (tools_list @ ts))
      else Inl e)"

definition parse_tools :: "'o env \<Rightarrow> 'o tool list option \<Rightarrow> 'o tool list result" where
  "parse_tools env tools_arg =
     (case crewai_tools_import env of
        Some e \<Rightarrow> on_exception e tools_arg []
      | None \<Rightarrow>
          (case tools_arg of
             None \<Rightarrow> on_exception TypeError tools_arg []
           | Some ts \<Rightarrow>
               (case convert_loop env ts [] of
                  (tools_list, None) \<Rightarrow> Inr tools_list
                | (tools_list, Some e) \<Rightarrow> on_exception e tools_arg tools_list)))"

text \<open>What the \<open>try\<close> block makes of one tool when \<open>to_langchain\<close> returns \<open>f x\<close> on every
  \<open>CrewAITool x\<close>.\<close>

definition langchain_form :: "('o \<Rightarrow> 'o tool) \<Rightarrow> 'o tool \<Rightarrow> 'o tool" where
  "langchain_form f t = (case t of CrewAITool x \<Rightarrow> f x | OtherTool x \<Rightarrow> OtherTool x)"

subsection \<open>create_agent_executor\<close>

definition response_marker :: string where
  "response_marker = ''{{ .Response }}''"

text \<open>Lines 211 to 216: the stop words. \<open>split(...)[1]\<close> raises \<open>IndexError\<close> when the
  split has a single piece.\<close>

definition stop_words :: "'o env \<Rightarrow> 'o agent \<Rightarrow> string list result" where
  "stop_words env self =
     and_then (i18n_slice env (i18n self) ''observation'') (\<lambda>observation.
       (case response_template self of
          None \<Rightarrow> Inr [observation]
        | Some t \<Rightarrow>
            if t = [] then Inr [observation]
            else (case str_split t response_marker of
                    p0 # p1 # ps \<Rightarrow> Inr [observation, strip p1]
                  | _ \<Rightarrow> Inl IndexError)))"

text \<open>The keyword arguments of lines 175 to 195 and the runnable of line 220, as the
  executor they construct.\<close>

definition new_executor ::
  "'o agent \<Rightarrow> 'o tool list \<Rightarrow> 'o tool list option \<Rightarrow> 'o \<Rightarrow> 'o \<Rightarrow> 'o executor" where
  "new_executor self parsed tools_used execution_prompt bind =
     \<lparr> ex_agent = \<lparr> r_args = agent_args, r_prompt = execution_prompt, r_llm = bind,
                    r_parser = Self \<rparr>,
       ex_llm = llm self,
       ex_i18n = i18n self,
       ex_crew = crew self,
       ex_crew_agent = Self,
       ex_tools = parsed,
       ex_verbose = verbose self,
       ex_original_tools = tools_used,
       ex_handle_parsing_errors = True,
       ex_max_iterations = max_iter self,
       ex_max_execution_time = max_execution_time self,
       ex_step_callback = step_callback self,
       ex_tools_handler = tools_handler self,
       ex_function_calling_llm = function_calling_llm self,
       ex_callbacks = callbacks self,
       ex_request_within_rpm_limit = map_option CheckOrWait (rpm_controller self),
       ex_task = None,
       ex_tools_description = None,
       ex_tools_names = None \<rparr>"

text \<open>Lines 220 to 223, once the prompt and the bound model are there.\<close>

definition assemble :: "'o env \<Rightarrow> 'o executor \<Rightarrow> unit result" where
  "assemble env ex =
     and_then (check (pipe_prompt env (r_prompt (ex_agent ex)))) (\<lambda>u1.
     and_then (check (pipe_llm env (r_prompt (ex_agent ex)) (r_llm (ex_agent ex)))) (\<lambda>u2.
     and_then (check (crew_agent_parser env)) (\<lambda>u3.
     and_then (check (pipe_parser env (r_prompt (ex_agent ex)) (r_llm (ex_agent ex)))) (\<lambda>u4.
     and_then (check (runnable_agent env (ex_agent ex))) (\<lambda>u5.
     check (crew_agent_executor env ex))))))"

definition create_agent_executor :: "'o env \<Rightarrow> 'o agent \<Rightarrow> 'o tool list option \<Rightarrow> 'o agent result" where
  "create_agent_executor env self tools_arg =
     (let tools_used = list_or tools_arg (tools self) in
      and_then (parse_tools env tools_used) (\<lambda>parsed.
      and_then (prompts_task_execution env (i18n self) tools_used (system_template self)
                  (prompt_template self) (response_template self)) (\<lambda>prompt.
      and_then (prompt_partial env prompt (goal self) (role self) (backstory self))
        (\<lambda>execution_prompt.
      and_then (stop_words env self) (\<lambda>stop.
      and_then (llm_bind env (llm self) stop) (\<lambda>bind.
      and_then (assemble env (new_executor self parsed tools_used execution_prompt bind)) (\<lambda>u.
        Inr (self\<lparr>agent_executor :=
               Some (new_executor self parsed tools_used execution_prompt bind)\<rparr>))))))))"

subsection \<open>execute_task\<close>

text \<open>Lines 107 to 112: the task's prompt, put into the context template when a non-empty
  context is given.\<close>

definition base_prompt :: "'o env \<Rightarrow> 'o agent \<Rightarrow> 'o \<Rightarrow> string option \<Rightarrow> string result" where
  "base_prompt env self task context =
     and_then (task_prompt env task) (\<lambda>p.
       (case context of
          None \<Rightarrow> Inr p
        | Some c \<Rightarrow>
            if c = [] then Inr p
            else and_then (i18n_slice env (i18n self) ''task_with_context'') (\<lambda>t.
                   str_format env t [(''task'', p), (''context'', c)])))"

text \<open>Lines 114 to 122: the memory step.\<close>

definition memory_step ::
  "'o env \<Rightarrow> 'o agent \<Rightarrow> 'o \<Rightarrow> string option \<Rightarrow> string \<Rightarrow> string result" where
  "memory_step env self task context p =
     (case crew self of
        None \<Rightarrow> Inr p
      | Some cr \<Rightarrow>
          if memory cr then
            and_then (build_context_for_task env
                        (short_term_memory cr, long_term_memory cr, entity_memory cr) task context)
              (\<lambda>mem.
                 if strip mem \<noteq> [] then
                   and_then (i18n_slice env (i18n self) ''memory'') (\<lambda>t.
                   and_then (str_format env t [(''memory'', mem)]) (\<lambda>s. Inr (p @ s)))
                 else Inr p)
          else Inr p)"

text \<open>\<open>", ".join([t.name for t in tools])\<close>.\<close>

fun names_of :: "'o env \<Rightarrow> 'o tool list \<Rightarrow> string list result" where
  "names_of env [] = Inr []"
| "names_of env (t # ts) =
     and_then (tool_name env t) (\<lambda>n. and_then (names_of env ts) (\<lambda>ns. Inr (n # ns)))"

fun join :: "string \<Rightarrow> string list \<Rightarrow> string" where
  "join sep [] = []"
| "join sep [x] = x"
| "join sep (x # y # ys) = x @ sep @ join sep (y # ys)"

definition tools_names :: "'o env \<Rightarrow> 'o tool list \<Rightarrow> string result" where
  "tools_names env ts = and_then (names_of env ts) (\<lambda>ns. Inr (join '', '' ns))"

text \<open>Lines 141 to 143, after \<open>invoke\<close> has returned \<open>dict\<close>: \<open>["output"]\<close>, then the
  controller's \<open>stop_rpm_counter\<close> when \<open>max_rpm\<close> is truthy.\<close>

definition finish_task ::
  "'o env \<Rightarrow> 'o agent \<Rightarrow> 'o event list \<Rightarrow> (string \<times> string) list
     \<Rightarrow> string result \<times> 'o event list" where
  "finish_task env self evs out =
     (case map_of out ''output'' of
        None \<Rightarrow> (Inl KeyError, evs)
      | Some res \<Rightarrow>
          if int_truthy (max_rpm self) then
            (case rpm_controller self of
               None \<Rightarrow> (Inl AttributeError, evs)
             | Some c \<Rightarrow>
                 (case stop_rpm_counter env c of
                    Some e \<Rightarrow> (Inl e, evs @ [StopRpmCounter c])
                  | None \<Rightarrow> (Inr res, evs @ [StopRpmCounter c])))
          else (Inr res, evs))"

text \<open>Lines 128 to 140: the assignments to the executor's attributes and the call of
  \<open>invoke\<close>. The result holds the agent as the call leaves it, also when it raises: an
  assignment that raises leaves the attribute as it was.\<close>

definition run_executor ::
  "'o env \<Rightarrow> 'o agent \<Rightarrow> 'o \<Rightarrow> string \<Rightarrow> 'o tool list \<Rightarrow> 'o event list
     \<Rightarrow> string result \<times> 'o agent \<times> 'o event list" where
  "run_executor env self task prompt parsed evs =
     (case agent_executor self of
        None \<Rightarrow> (Inl AttributeError, self, evs)
      | Some ex0 \<Rightarrow>
     (let ex1 = ex0\<lparr>ex_tools := parsed\<rparr>
      in case executor_setattr env ''tools'' ex1 of
        Some e \<Rightarrow> (Inl e, self, evs)
      | None \<Rightarrow>
     (let ex2 = ex1\<lparr>ex_task := Some task\<rparr>
      in case executor_setattr env ''task'' ex2 of
        Some e \<Rightarrow> (Inl e, self\<lparr>agent_executor := Some ex1\<rparr>, evs)
      | None \<Rightarrow>
     (case render_text_description env parsed of
        Inl e \<Rightarrow> (Inl e, self\<lparr>agent_executor := Some ex2\<rparr>, evs)
      | Inr description \<Rightarrow>
     (let ex3 = ex2\<lparr>ex_tools_description := Some description\<rparr>
      in case executor_setattr env ''tools_description'' ex3 of
        Some e \<Rightarrow> (Inl e, self\<lparr>agent_executor := Some ex2\<rparr>, evs)
      | None \<Rightarrow>
     (case tools_names env parsed of
        Inl e \<Rightarrow> (Inl e, self\<lparr>agent_executor := Some ex3\<rparr>, evs)
      | Inr names \<Rightarrow>
     (let ex4 = ex3\<lparr>ex_tools_names := Some names\<rparr>
      in case executor_setattr env ''tools_names'' ex4 of
        Some e \<Rightarrow> (Inl e, self\<lparr>agent_executor := Some ex3\<rparr>, evs)
      | None \<Rightarrow>
     (let self4 = self\<lparr>agent_executor := Some ex4\<rparr>;
          d = [(''input'', prompt), (''tool_names'', names), (''tools'', description)];
          evs1 = evs @ [Invoke d]
      in case executor_invoke env ex4 d of
        Inl e \<Rightarrow> (Inl e, self4, evs1)
      | Inr out \<Rightarrow>
          (case finish_task env self4 evs1 out of (r, evs2) \<Rightarrow> (r, self4, evs2))))))))))"

text \<open>Lines 103 to 105.\<close>

definition reset_tools_handler :: "'o env \<Rightarrow> 'o agent \<Rightarrow> 'o event list result" where
  "reset_tools_handler env self =
     (case tools_handler self of
        None \<Rightarrow> Inr []
      | Some h \<Rightarrow> and_then (check (reset_last_used_tool env h)) (\<lambda>u. Inr [ResetLastUsedTool h]))"

definition execute_task ::
  "'o env \<Rightarrow> 'o agent \<Rightarrow> 'o \<Rightarrow> string option \<Rightarrow> 'o tool list option
     \<Rightarrow> string result \<times> 'o agent \<times> 'o event list" where
  "execute_task env self task context tools_arg =
     (case reset_tools_handler env self of
        Inl e \<Rightarrow> (Inl e, self, [])
      | Inr evs \<Rightarrow>
     (case and_then (base_prompt env self task context) (memory_step env self task context) of
        Inl e \<Rightarrow> (Inl e, self, evs)
      | Inr prompt \<Rightarrow>
     (let tools_used = list_or tools_arg (tools self)
      in case parse_tools env (list_or tools_used (Some [])) of
        Inl e \<Rightarrow> (Inl e, self, evs)
      | Inr parsed \<Rightarrow>
     (case create_agent_executor env self tools_used of
        Inl e \<Rightarrow> (Inl e, self, evs)
      | Inr self1 \<Rightarrow> run_executor env self1 task prompt parsed evs))))"

text \<open>The executor an outcome of \<open>create_agent_executor\<close> holds, if any.\<close>

fun executor_of :: "'o agent result \<Rightarrow> 'o executor option" where
  "executor_of (Inl e) = None"
| "executor_of (Inr a) = agent_executor a"

text \<open>The prompt stage of the runnable of that executor, if any.\<close>

fun prompt_of :: "'o agent result \<Rightarrow> 'o option" where
  "prompt_of (Inl e) = None"
| "prompt_of (Inr a) = map_option (\<lambda>ex. r_prompt (ex_agent ex)) (agent_executor a)"

text \<open>The execution prompt in the words of the specification: the \<open>task_execution\<close> prompt
  built from the agent's i18n, tools and three templates, partially applied with the agent's
  goal, role and backstory.\<close>

definition claimed_execution_prompt :: "'o env \<Rightarrow> 'o agent \<Rightarrow> 'o result" where
  "claimed_execution_prompt env self =
     and_then (prompts_task_execution env (i18n self) (tools self) (system_template self)
                 (prompt_template self) (response_template self))
       (\<lambda>prompt. prompt_partial env prompt (goal self) (role self) (backstory self))"

subsection \<open>A concrete environment and agent\<close>

text \<open>\<open>str.format\<close> for templates whose replacement fields are plain keyword names, with the
  escapes \<open>{{\<close> and \<open>}}\<close>.\<close>

datatype fmt_mode = Text | AfterOpen | InField string | AfterClose

fun format_go :: "(string \<times> string) list \<Rightarrow> fmt_mode \<Rightarrow> string \<Rightarrow> string result" where
  "format_go kw Text [] = Inr []"
| "format_go kw AfterOpen [] = Inl ValueError"
| "format_go kw (InField f) [] = Inl ValueError"
| "format_go kw AfterClose [] = Inl ValueError"
| "format_go kw Text (c # cs) =
     (if c = CHR ''{'' then format_go kw AfterOpen cs
      else if c = CHR ''}'' then format_go kw AfterClose cs
      else and_then (format_go kw Text cs) (\<lambda>r. Inr (c # r)))"
| "format_go kw AfterOpen (c # cs) =
     (if c = CHR ''{'' then and_then (format_go kw Text cs) (\<lambda>r. Inr (c # r))
      else if c = CHR ''}'' then Inl IndexError
      else format_go kw (InField [c]) cs)"
| "format_go kw (InField f) (c # cs) =
     (if c = CHR ''}'' then
        (case map_of kw f of
           None \<Rightarrow> Inl KeyError
         | Some v \<Rightarrow> and_then (format_go kw Text cs) (\<lambda>r. Inr (v @ r)))
      else format_go kw (InField (f @ [c])) cs)"
| "format_go kw AfterClose (c # cs) =
     (if c = CHR ''}'' then and_then (format_go kw Text cs) (\<lambda>r. Inr (c # r))
      else Inl ValueError)"

definition format_fields :: "string \<Rightarrow> (string \<times> string) list \<Rightarrow> string result" where
  "format_fields template kw = format_go kw Text template"

definition demo_slice :: "string \<Rightarrow> string result" where
  "demo_slice name =
     (if name = ''observation'' then Inr ''Observation:''
      else if name = ''memory'' then Inr ''# Useful context: {memory}''
      else if name = ''task_with_context'' then Inr ''{task} Context: {context}''
      else Inl (ExternalError 0))"

definition demo_env :: "nat env" where
  "demo_env =
     \<lparr> crewai_tools_import = None,
       to_langchain = (\<lambda>x. Inr (OtherTool (x + 100))),
       task_prompt = (\<lambda>t. Inr ''Do it.''),
       i18n_slice = (\<lambda>i. demo_slice),
       str_format = format_fields,
       build_context_for_task = (\<lambda>ms t c. Inr ''old facts''),
       prompts_task_execution =
         (\<lambda>i ts s p r. case ts of None \<Rightarrow> Inl TypeError
                        | Some l \<Rightarrow> Inr (if l = [] then 20 else 21)),
       prompt_partial = (\<lambda>p g r b. Inr (p + 100)),
       llm_bind = (\<lambda>l stop. Inr (l + length stop)),
       render_text_description = (\<lambda>ts. Inr (replicate (length ts) CHR ''t'')),
       tool_name = (\<lambda>t. Inr (if is_crewai_tool t then ''c'' else ''o'')),
       executor_invoke =
         (\<lambda>ex d. case map_of d ''input'' of None \<Rightarrow> Inl KeyError
                  | Some p \<Rightarrow> Inr [(''output'', p)]),
       stop_rpm_counter = (\<lambda>c. None),
       pipe_prompt = (\<lambda>p. None),
       pipe_llm = (\<lambda>p l. None),
       crew_agent_parser = None,
       pipe_parser = (\<lambda>p l. None),
       runnable_agent = (\<lambda>r. None),
       crew_agent_executor = (\<lambda>ex. None),
       reset_last_used_tool = (\<lambda>h. None),
       executor_setattr = (\<lambda>name ex. None) \<rparr>"

definition demo_agent :: "nat agent" where
  "demo_agent =
     \<lparr> role = ''analyst'', goal = ''report'', backstory = ''senior'',
       llm = 1, function_calling_llm = None, callbacks = Some [11, 12], step_callback = Some 2,
       max_execution_time = Some 60, max_iter = Some 25, max_rpm = Some 10, verbose = False,
       i18n = 3,
       crew = Some \<lparr> memory = True, short_term_memory = 4, long_term_memory = 5,
                     entity_memory = 6 \<rparr>,
       tools = Some [CrewAITool 7, OtherTool 8],
       tools_handler = Some 9, rpm_controller = Some 10,
       system_template = None, prompt_template = None, response_template = None,
       agent_executor = None \<rparr>"

section \<open>Properties\<close>

lemma format_log_loop_acc:
  "format_log_loop xs op lp acc = acc @ concat (map (step_text op lp) xs)"
  by (induction xs arbitrary: acc) (auto simp: step_text_def)

text \<open>
  C8. \<open>format_log_to_str\<close> maps the empty list to the empty string and the concatenation of
  two step lists to the concatenation of their texts; each pair contributes its action's log,
  a newline, the observation prefix, the observation, a newline and the llm prefix, in list
  order.
\<close>

theorem format_log_to_str_homomorphism:
  "format_log_to_str [] op lp = []
   \<and> format_log_to_str (xs @ ys) op lp = format_log_to_str xs op lp @ format_log_to_str ys op lp
   \<and> format_log_to_str xs op lp = concat (map (step_text op lp) xs)
   \<and> step_text op lp (a, ob) = log a @ [CHR 0x0A] @ op @ ob @ [CHR 0x0A] @ lp"
  by (simp add: format_log_to_str_def format_log_loop_acc step_text_def)

subsection \<open>Sequencing and the executor's construction\<close>

lemma and_then_Inr: "and_then m f = Inr y \<longleftrightarrow> (\<exists>x. m = Inr x \<and> f x = Inr y)"
  by (cases m) auto

lemma and_then_Inl: "and_then m f = Inl e \<longleftrightarrow> m = Inl e \<or> (\<exists>x. m = Inr x \<and> f x = Inl e)"
  by (cases m) auto

lemma create_agent_executor_success:
  assumes "create_agent_executor env self ta = Inr self'"
  shows "\<exists>parsed prompt execution_prompt stop bind.
           parse_tools env (list_or ta (tools self)) = Inr parsed
         \<and> prompts_task_execution env (i18n self) (list_or ta (tools self)) (system_template self)
               (prompt_template self) (response_template self) = Inr prompt
         \<and> prompt_partial env prompt (goal self) (role self) (backstory self) = Inr execution_prompt
         \<and> stop_words env self = Inr stop
         \<and> llm_bind env (llm self) stop = Inr bind
         \<and> self' = self\<lparr>agent_executor := Some
             \<lparr> ex_agent = \<lparr> r_args = agent_args, r_prompt = execution_prompt, r_llm = bind,
                            r_parser = Self \<rparr>,
               ex_llm = llm self,
               ex_i18n = i18n self,
               ex_crew = crew self,
               ex_crew_agent = Self,
               ex_tools = parsed,
               ex_verbose = verbose self,
               ex_original_tools = list_or ta (tools self),
               ex_handle_parsing_errors = True,
               ex_max_iterations = max_iter self,
               ex_max_execution_time = max_execution_time self,
               ex_step_callback = step_callback self,
               ex_tools_handler = tools_handler self,
               ex_function_calling_llm = function_calling_llm self,
               ex_callbacks = callbacks self,
               ex_request_within_rpm_limit = map_option CheckOrWait (rpm_controller self),
               ex_task = None,
               ex_tools_description = None,
               ex_tools_names = None \<rparr>\<rparr>"
  using assms unfolding create_agent_executor_def new_executor_def Let_def and_then_Inr
  by (elim exE conjE) auto

text \<open>
  C1. Whenever \<open>create_agent_executor\<close> returns, the agent holds an executor constructed with
  \<open>llm\<close>, \<open>max_iterations\<close>, \<open>max_execution_time\<close>, \<open>step_callback\<close>,
  \<open>function_calling_llm\<close>, \<open>callbacks\<close> and \<open>tools_handler\<close> equal to the agent's \<open>llm\<close>,
  \<open>max_iter\<close>, \<open>max_execution_time\<close>, \<open>step_callback\<close>, \<open>function_calling_llm\<close>,
  \<open>callbacks\<close> and \<open>tools_handler\<close>, and no other field of the agent has changed.
\<close>

theorem create_agent_executor_forwards_fields:
  assumes "create_agent_executor env self ta = Inr self'"
  shows "\<exists>ex. agent_executor self' = Some ex
           \<and> self' = self\<lparr>agent_executor := Some ex\<rparr>
           \<and> ex_llm ex = llm self
           \<and> ex_max_iterations ex = max_iter self
           \<and> ex_max_execution_time ex = max_execution_time self
           \<and> ex_step_callback ex = step_callback self
           \<and> ex_function_calling_llm ex = function_calling_llm self
           \<and> ex_callbacks ex = callbacks self
           \<and> ex_tools_handler ex = tools_handler self"
  using create_agent_executor_success [OF assms] by auto

lemma demo_create:
  "\<exists>s. create_agent_executor demo_env demo_agent None = Inr s"
  by (simp add: create_agent_executor_def new_executor_def assemble_def demo_env_def demo_agent_def parse_tools_def
      stop_words_def demo_slice_def Let_def)

theorem create_agent_executor_forwards_fields_witness:
  "\<exists>self' ex. create_agent_executor demo_env demo_agent None = Inr self'
     \<and> agent_executor self' = Some ex
     \<and> ex_llm ex = 1 \<and> ex_max_iterations ex = Some 25 \<and> ex_max_execution_time ex = Some 60
     \<and> ex_step_callback ex = Some 2 \<and> ex_function_calling_llm ex = None
     \<and> ex_callbacks ex = Some [11, 12] \<and> ex_tools_handler ex = Some 9"
proof -
  obtain s where h: "create_agent_executor demo_env demo_agent None = Inr s"
    using demo_create by blast
  from create_agent_executor_forwards_fields [OF h] h show ?thesis
    by (auto simp: demo_agent_def)
qed

subsection \<open>The tool list\<close>

lemma parse_tools_None: "parse_tools env None = Inr ps \<Longrightarrow> False"
  by (auto simp: parse_tools_def on_exception_def split: option.splits if_splits)

lemma parse_tools_import_missing:
  "crewai_tools_import env = Some ModuleNotFoundError \<Longrightarrow> parse_tools env (Some ts) = Inr ts"
  by (simp add: parse_tools_def on_exception_def)

lemma convert_loop_converts:
  "\<forall>x. CrewAITool x \<in> set ts \<longrightarrow> to_langchain env x = Inr (f x)
   \<Longrightarrow> convert_loop env ts acc = (acc @ map (langchain_form f) ts, None)"
proof (induction ts arbitrary: acc)
  case Nil
  then show ?case by simp
next
  case (Cons t ts)
  then show ?case by (cases t) (simp_all add: langchain_form_def)
qed

lemma parse_tools_converts:
  "crewai_tools_import env = None
   \<Longrightarrow> \<forall>x. CrewAITool x \<in> set ts \<longrightarrow> to_langchain env x = Inr (f x)
   \<Longrightarrow> parse_tools env (Some ts) = Inr (map (langchain_form f) ts)"
  using convert_loop_converts [of ts env f "[]"] by (simp add: parse_tools_def)

lemma langchain_form_other: "\<not> is_crewai_tool t \<Longrightarrow> langchain_form f t = t"
  by (cases t) (simp_all add: langchain_form_def)

text \<open>
  C2, as amended. Whenever \<open>create_agent_executor\<close> returns, the tool list in use is the
  list given when that is non-empty and the agent's own \<open>tools\<close> otherwise; the executor's
  \<open>original_tools\<close> is that list unchanged and its \<open>tools\<close> is what \<open>_parse_tools\<close> returns
  on that list. That is the list unchanged when the
  import of \<open>crewai_tools\<close> raises \<open>ModuleNotFoundError\<close> or the list holds no \<open>CrewAITool\<close>,
  and that list with every \<open>CrewAITool\<close> replaced by its \<open>to_langchain()\<close> when
  \<open>crewai_tools\<close> is imported and every \<open>to_langchain()\<close> on the list returns. Nothing is said
  of a run in which \<open>to_langchain()\<close> raises \<open>ModuleNotFoundError\<close>.
\<close>

theorem create_agent_executor_tools:
  assumes "create_agent_executor env self ta = Inr self'"
  shows "\<exists>ex ts. agent_executor self' = Some ex
           \<and> list_or ta (tools self) = Some ts
           \<and> ex_original_tools ex = Some ts
           \<and> parse_tools env (Some ts) = Inr (ex_tools ex)
           \<and> (crewai_tools_import env = Some ModuleNotFoundError \<longrightarrow> ex_tools ex = ts)
           \<and> (crewai_tools_import env = None
                \<and> (\<forall>x. CrewAITool x \<in> set ts \<longrightarrow> to_langchain env x = Inr (f x))
              \<longrightarrow> ex_tools ex = map (langchain_form f) ts)
           \<and> (crewai_tools_import env = None \<and> (\<forall>t \<in> set ts. \<not> is_crewai_tool t)
              \<longrightarrow> ex_tools ex = ts)"
proof -
  from create_agent_executor_success [OF assms] obtain parsed ex where
    p: "parse_tools env (list_or ta (tools self)) = Inr parsed"
    and ex: "agent_executor self' = Some ex" "ex_tools ex = parsed"
      "ex_original_tools ex = list_or ta (tools self)"
    by auto
  from p obtain ts where ts: "list_or ta (tools self) = Some ts"
    by (cases "list_or ta (tools self)") (auto dest: parse_tools_None)
  have a: "crewai_tools_import env = Some ModuleNotFoundError \<longrightarrow> parsed = ts"
    using p ts by (auto simp: parse_tools_import_missing)
  have b: "crewai_tools_import env = None
        \<and> (\<forall>x. CrewAITool x \<in> set ts \<longrightarrow> to_langchain env x = Inr (f x))
      \<longrightarrow> parsed = map (langchain_form f) ts"
  proof
    assume "crewai_tools_import env = None
        \<and> (\<forall>x. CrewAITool x \<in> set ts \<longrightarrow> to_langchain env x = Inr (f x))"
    then have "parse_tools env (Some ts) = Inr (map (langchain_form f) ts)"
      using parse_tools_converts [of env ts f] by blast
    with p ts show "parsed = map (langchain_form f) ts" by simp
  qed
  have c: "crewai_tools_import env = None \<and> (\<forall>t \<in> set ts. \<not> is_crewai_tool t) \<longrightarrow> parsed = ts"
  proof
    assume h: "crewai_tools_import env = None \<and> (\<forall>t \<in> set ts. \<not> is_crewai_tool t)"
    then have "\<forall>x. CrewAITool x \<in> set ts \<longrightarrow> to_langchain env x = Inr (OtherTool x)"
      by auto
    with h have "parse_tools env (Some ts) = Inr (map (langchain_form OtherTool) ts)"
      using parse_tools_converts [of env ts OtherTool] by blast
    with p ts have "parsed = map (langchain_form OtherTool) ts" by simp
    also have "\<dots> = ts" using h by (simp add: langchain_form_other map_idI)
    finally show "parsed = ts" .
  qed
  from p ts have "parse_tools env (Some ts) = Inr parsed" by simp
  with ex ts a b c show ?thesis by auto
qed

lemma demo_create_given:
  "\<exists>s. create_agent_executor demo_env demo_agent (Some [CrewAITool 7]) = Inr s"
  by (simp add: create_agent_executor_def new_executor_def assemble_def demo_env_def demo_agent_def parse_tools_def
      stop_words_def demo_slice_def Let_def)

lemma demo_create_uninstalled:
  "\<exists>s. create_agent_executor (demo_env\<lparr>crewai_tools_import := Some ModuleNotFoundError\<rparr>)
         demo_agent None = Inr s"
  by (simp add: create_agent_executor_def new_executor_def assemble_def demo_env_def demo_agent_def parse_tools_def
      stop_words_def demo_slice_def Let_def on_exception_def)

theorem create_agent_executor_tools_witness:
  "(\<exists>self' ex. create_agent_executor demo_env demo_agent (Some [CrewAITool 7]) = Inr self'
      \<and> agent_executor self' = Some ex
      \<and> ex_original_tools ex = Some [CrewAITool 7]
      \<and> ex_tools ex = [OtherTool 107])
   \<and> (\<exists>self' ex.
        create_agent_executor (demo_env\<lparr>crewai_tools_import := Some ModuleNotFoundError\<rparr>)
          demo_agent None = Inr self'
      \<and> agent_executor self' = Some ex
      \<and> ex_original_tools ex = Some [CrewAITool 7, OtherTool 8]
      \<and> ex_tools ex = [CrewAITool 7, OtherTool 8])"
proof -
  obtain s where h: "create_agent_executor demo_env demo_agent (Some [CrewAITool 7]) = Inr s"
    using demo_create_given by blast
  have 1: "\<exists>self' ex. create_agent_executor demo_env demo_agent (Some [CrewAITool 7]) = Inr self'
      \<and> agent_executor self' = Some ex
      \<and> ex_original_tools ex = Some [CrewAITool 7]
      \<and> ex_tools ex = [OtherTool 107]"
    using create_agent_executor_tools [OF h, of "\<lambda>x. OtherTool (x + 100)"] h
    by (auto simp: demo_env_def demo_agent_def langchain_form_def)
  obtain s' where h': "create_agent_executor
      (demo_env\<lparr>crewai_tools_import := Some ModuleNotFoundError\<rparr>) demo_agent None = Inr s'"
    using demo_create_uninstalled by blast
  have 2: "\<exists>self' ex.
        create_agent_executor (demo_env\<lparr>crewai_tools_import := Some ModuleNotFoundError\<rparr>)
          demo_agent None = Inr self'
      \<and> agent_executor self' = Some ex
      \<and> ex_original_tools ex = Some [CrewAITool 7, OtherTool 8]
      \<and> ex_tools ex = [CrewAITool 7, OtherTool 8]"
    using create_agent_executor_tools [OF h', of "\<lambda>x. OtherTool x"] h'
    by (auto simp: demo_env_def demo_agent_def)
  from 1 2 show ?thesis by blast
qed

theorem tools_not_verbatim_counterexample:
  "map_option ex_tools
     (executor_of (create_agent_executor demo_env demo_agent (Some [CrewAITool 7])))
     = Some [OtherTool 107]
   \<and> [OtherTool 107] \<noteq> [CrewAITool (7::nat)]
   \<and> map_option ex_tools (executor_of (create_agent_executor demo_env demo_agent (Some [])))
     = Some [OtherTool 107, OtherTool 8]"
  by (simp add: create_agent_executor_def new_executor_def assemble_def demo_env_def demo_agent_def parse_tools_def
      stop_words_def demo_slice_def Let_def)

subsection \<open>The steps of execute_task\<close>

lemma list_or_self: "list_or y y = y"
  by (cases "(y, y)" rule: list_or.cases) simp_all

lemma list_or_idem: "list_or (list_or x y) y = list_or x y"
  by (cases "(x, y)" rule: list_or.cases) (simp_all add: list_or_self)

lemma list_or_Some_Nil: "list_or (Some ts) (Some []) = Some ts"
  by (cases ts) simp_all

lemma list_or_falsy: "list_or (Some []) y = y" "list_or None y = y"
  by simp_all

lemma finish_task_events:
  assumes "finish_task env self evs out = (r, evs')"
  shows "evs' = evs
       \<or> (int_truthy (max_rpm self)
          \<and> (\<exists>c. rpm_controller self = Some c \<and> evs' = evs @ [StopRpmCounter c]))"
  using assms by (auto simp: finish_task_def split: option.splits if_splits)

lemma finish_task_success:
  assumes "finish_task env self evs out = (Inr res, evs')"
  shows "map_of out ''output'' = Some res
       \<and> (if int_truthy (max_rpm self)
          then \<exists>c. rpm_controller self = Some c \<and> evs' = evs @ [StopRpmCounter c]
          else evs' = evs)"
  using assms by (auto simp: finish_task_def split: option.splits if_splits)

lemma check_Inr: "check x = Inr u \<longleftrightarrow> x = None"
  by (cases x) simp_all

lemma check_Inl: "check x = Inl e \<longleftrightarrow> x = Some e"
  by (cases x) simp_all

lemma run_executor_cases:
  assumes "run_executor env self task prompt parsed evs = (r, self', evs')"
  shows "(evs' = evs \<and> (\<exists>e. r = Inl e))
       \<or> (\<exists>ex0 description names.
             agent_executor self = Some ex0
           \<and> render_text_description env parsed = Inr description
           \<and> tools_names env parsed = Inr names
           \<and> self' = self\<lparr>agent_executor := Some (ex0\<lparr>ex_tools := parsed, ex_task := Some task,
                 ex_tools_description := Some description, ex_tools_names := Some names\<rparr>)\<rparr>
           \<and> ((\<exists>e. executor_invoke env
                     (ex0\<lparr>ex_tools := parsed, ex_task := Some task,
                          ex_tools_description := Some description,
                          ex_tools_names := Some names\<rparr>)
                     [(''input'', prompt), (''tool_names'', names), (''tools'', description)]
                     = Inl e
                   \<and> r = Inl e
                   \<and> evs' = evs @ [Invoke [(''input'', prompt), (''tool_names'', names),
                                            (''tools'', description)]])
              \<or> (\<exists>out. executor_invoke env
                     (ex0\<lparr>ex_tools := parsed, ex_task := Some task,
                          ex_tools_description := Some description,
                          ex_tools_names := Some names\<rparr>)
                     [(''input'', prompt), (''tool_names'', names), (''tools'', description)]
                     = Inr out
                   \<and> finish_task env self'
                       (evs @ [Invoke [(''input'', prompt), (''tool_names'', names),
                                       (''tools'', description)]]) out = (r, evs'))))"
proof (cases "agent_executor self")
  case None
  with assms have "evs' = evs \<and> r = Inl AttributeError"
    by (simp add: run_executor_def)
  then show ?thesis by blast
next
  case (Some ex0)
  note x = this
  show ?thesis
  proof (cases "executor_setattr env ''tools'' (ex0\<lparr>ex_tools := parsed\<rparr>)")
    case (Some e)
    with assms x have "evs' = evs \<and> r = Inl e"
      by (simp add: run_executor_def Let_def)
    then show ?thesis by blast
  next
    case None
    note a1 = this
    show ?thesis
    proof (cases "executor_setattr env ''task'' (ex0\<lparr>ex_tools := parsed, ex_task := Some task\<rparr>)")
      case (Some e)
      with assms x a1 have "evs' = evs \<and> r = Inl e"
        by (simp add: run_executor_def Let_def)
      then show ?thesis by blast
    next
      case None
      note a2 = this
      show ?thesis
      proof (cases "render_text_description env parsed")
        case (Inl e)
        with assms x a1 a2 have "evs' = evs \<and> r = Inl e"
          by (simp add: run_executor_def Let_def)
        then show ?thesis by blast
      next
        case (Inr description)
        note rd = this
        show ?thesis
        proof (cases "executor_setattr env ''tools_description''
            (ex0\<lparr>ex_tools := parsed, ex_task := Some task,
                 ex_tools_description := Some description\<rparr>)")
          case (Some e)
          with assms x a1 a2 rd have "evs' = evs \<and> r = Inl e"
            by (simp add: run_executor_def Let_def)
          then show ?thesis by blast
        next
          case None
          note a3 = this
          show ?thesis
          proof (cases "tools_names env parsed")
            case (Inl e)
            with assms x a1 a2 rd a3 have "evs' = evs \<and> r = Inl e"
              by (simp add: run_executor_def Let_def)
            then show ?thesis by blast
          next
            case (Inr names)
            note tn = this
            let ?ex = "ex0\<lparr>ex_tools := parsed, ex_task := Some task,
                 ex_tools_description := Some description, ex_tools_names := Some names\<rparr>"
            let ?d = "[(''input'', prompt), (''tool_names'', names), (''tools'', description)]"
            show ?thesis
            proof (cases "executor_setattr env ''tools_names'' ?ex")
              case (Some e)
              with assms x a1 a2 rd a3 tn have "evs' = evs \<and> r = Inl e"
                by (simp add: run_executor_def Let_def)
              then show ?thesis by blast
            next
              case None
              note a4 = this
              show ?thesis
              proof (cases "executor_invoke env ?ex ?d")
                case (Inl e)
                with assms x a1 a2 rd a3 tn a4
                have "r = Inl e \<and> evs' = evs @ [Invoke ?d]
                    \<and> self' = self\<lparr>agent_executor := Some ?ex\<rparr>"
                  by (auto simp: run_executor_def Let_def)
                with x rd tn Inl show ?thesis by blast
              next
                case (Inr out)
                with assms x a1 a2 rd a3 tn a4
                have "self' = self\<lparr>agent_executor := Some ?ex\<rparr>
                    \<and> finish_task env (self\<lparr>agent_executor := Some ?ex\<rparr>)
                        (evs @ [Invoke ?d]) out = (r, evs')"
                  by (auto simp: run_executor_def Let_def split: prod.splits)
                with x rd tn Inr show ?thesis by blast
              qed
            qed
          qed
        qed
      qed
    qed
  qed
qed

lemma run_executor_events:
  assumes "run_executor env self task prompt parsed evs = (r, self', evs')"
  shows "evs' = evs
       \<or> (\<exists>d. map_of d ''input'' = Some prompt
             \<and> (evs' = evs @ [Invoke d]
                \<or> (int_truthy (max_rpm self)
                   \<and> (\<exists>c. rpm_controller self = Some c
                          \<and> evs' = evs @ [Invoke d, StopRpmCounter c]))))"
proof -
  from run_executor_cases [OF assms]
  consider "evs' = evs"
    | description names where
      "evs' = evs @ [Invoke [(''input'', prompt), (''tool_names'', names),
                             (''tools'', description)]]"
    | ex description names out where
      "self' = self\<lparr>agent_executor := Some ex\<rparr>"
      "finish_task env self'
         (evs @ [Invoke [(''input'', prompt), (''tool_names'', names),
                         (''tools'', description)]]) out = (r, evs')"
    by blast
  then show ?thesis
  proof cases
    case 1
    then show ?thesis by simp
  next
    case 2
    let ?d = "[(''input'', prompt), (''tool_names'', names), (''tools'', description)]"
    have "map_of ?d ''input'' = Some prompt" by simp
    with 2 show ?thesis by blast
  next
    case 3
    let ?d = "[(''input'', prompt), (''tool_names'', names), (''tools'', description)]"
    have i: "map_of ?d ''input'' = Some prompt" by simp
    from finish_task_events [OF 3(2)] 3(1)
    have "evs' = evs @ [Invoke ?d]
        \<or> (int_truthy (max_rpm self)
           \<and> (\<exists>c. rpm_controller self = Some c \<and> evs' = evs @ [Invoke ?d, StopRpmCounter c]))"
      by auto
    with i show ?thesis by blast
  qed
qed

lemma run_executor_success:
  assumes "run_executor env self task prompt parsed evs = (Inr res, self', evs')"
  shows "\<exists>ex0 description names out.
           agent_executor self = Some ex0
         \<and> render_text_description env parsed = Inr description
         \<and> tools_names env parsed = Inr names
         \<and> self' = self\<lparr>agent_executor := Some (ex0\<lparr>ex_tools := parsed, ex_task := Some task,
               ex_tools_description := Some description, ex_tools_names := Some names\<rparr>)\<rparr>
         \<and> executor_invoke env
               (ex0\<lparr>ex_tools := parsed, ex_task := Some task,
                    ex_tools_description := Some description, ex_tools_names := Some names\<rparr>)
               [(''input'', prompt), (''tool_names'', names), (''tools'', description)] = Inr out
         \<and> map_of out ''output'' = Some res
         \<and> (if int_truthy (max_rpm self)
            then \<exists>c. rpm_controller self = Some c
                   \<and> evs' = evs @ [Invoke [(''input'', prompt), (''tool_names'', names),
                                            (''tools'', description)], StopRpmCounter c]
            else evs' = evs @ [Invoke [(''input'', prompt), (''tool_names'', names),
                                       (''tools'', description)]])"
proof -
  from run_executor_cases [OF assms] obtain ex0 description names out where
    x: "agent_executor self = Some ex0"
    and rd: "render_text_description env parsed = Inr description"
    and tn: "tools_names env parsed = Inr names"
    and s: "self' = self\<lparr>agent_executor := Some (ex0\<lparr>ex_tools := parsed, ex_task := Some task,
               ex_tools_description := Some description, ex_tools_names := Some names\<rparr>)\<rparr>"
    and iv: "executor_invoke env
               (ex0\<lparr>ex_tools := parsed, ex_task := Some task,
                    ex_tools_description := Some description, ex_tools_names := Some names\<rparr>)
               [(''input'', prompt), (''tool_names'', names), (''tools'', description)] = Inr out"
    and f: "finish_task env self'
              (evs @ [Invoke [(''input'', prompt), (''tool_names'', names),
                              (''tools'', description)]]) out = (Inr res, evs')"
    by auto
  from finish_task_success [OF f] s
  have "map_of out ''output'' = Some res
       \<and> (if int_truthy (max_rpm self)
          then \<exists>c. rpm_controller self = Some c
                 \<and> evs' = evs @ [Invoke [(''input'', prompt), (''tool_names'', names),
                                          (''tools'', description)], StopRpmCounter c]
          else evs' = evs @ [Invoke [(''input'', prompt), (''tool_names'', names),
                                     (''tools'', description)]])"
    by (auto split: if_splits)
  with x rd tn s iv show ?thesis by blast
qed

subsection \<open>The events and the outcome of execute_task\<close>

lemma create_agent_executor_keeps:
  assumes "create_agent_executor env self ta = Inr self'"
  shows "max_rpm self' = max_rpm self" "rpm_controller self' = rpm_controller self"
    "tools self' = tools self"
  using create_agent_executor_success [OF assms] by auto

lemma reset_tools_handler_events:
  "reset_tools_handler env self = Inr h \<Longrightarrow> h = [] \<or> (\<exists>x. h = [ResetLastUsedTool x])"
  by (auto simp: reset_tools_handler_def and_then_Inr split: option.splits)

lemma execute_task_run:
  assumes "execute_task env self task context ta = (r, self', evs)"
  shows "(evs = [] \<or> (\<exists>x. evs = [ResetLastUsedTool x]))
       \<and> (\<exists>e. r = Inl e)
       \<or> (\<exists>h prompt parsed self1.
             reset_tools_handler env self = Inr h
           \<and> and_then (base_prompt env self task context) (memory_step env self task context)
               = Inr prompt
           \<and> parse_tools env (list_or (list_or ta (tools self)) (Some [])) = Inr parsed
           \<and> create_agent_executor env self (list_or ta (tools self)) = Inr self1
           \<and> run_executor env self1 task prompt parsed h = (r, self', evs))"
proof (cases "reset_tools_handler env self")
  case (Inl e)
  with assms have "evs = [] \<and> r = Inl e" by (simp add: execute_task_def)
  then show ?thesis by blast
next
  case (Inr h)
  note h = this
  from reset_tools_handler_events [OF h] have hs: "h = [] \<or> (\<exists>x. h = [ResetLastUsedTool x])" .
  let ?p = "and_then (base_prompt env self task context) (memory_step env self task context)"
  let ?tu = "list_or ta (tools self)"
  show ?thesis
  proof (cases ?p)
    case (Inl e)
    with assms h have "evs = h \<and> r = Inl e" by (simp add: execute_task_def)
    with hs show ?thesis by blast
  next
    case (Inr prompt)
    note p = this
    show ?thesis
    proof (cases "parse_tools env (list_or ?tu (Some []))")
      case (Inl e)
      with assms h p have "evs = h \<and> r = Inl e" by (simp add: execute_task_def Let_def)
      with hs show ?thesis by blast
    next
      case (Inr parsed)
      note ps = this
      show ?thesis
      proof (cases "create_agent_executor env self ?tu")
        case (Inl e)
        with assms h p ps have "evs = h \<and> r = Inl e" by (simp add: execute_task_def Let_def)
        with hs show ?thesis by blast
      next
        case (Inr self1)
        with assms h p ps have "run_executor env self1 task prompt parsed h = (r, self', evs)"
          by (simp add: execute_task_def Let_def)
        with h p ps Inr show ?thesis by blast
      qed
    qed
  qed
qed

lemma execute_task_events:
  assumes "execute_task env self task context ta = (r, self', evs)"
  shows "\<exists>h. (h = [] \<or> (\<exists>x. h = [ResetLastUsedTool x]))
       \<and> (evs = h
          \<or> (\<exists>d prompt.
                and_then (base_prompt env self task context) (memory_step env self task context)
                  = Inr prompt
              \<and> map_of d ''input'' = Some prompt
              \<and> (evs = h @ [Invoke d]
                 \<or> (int_truthy (max_rpm self)
                    \<and> (\<exists>c. rpm_controller self = Some c
                           \<and> evs = h @ [Invoke d, StopRpmCounter c])))))"
proof -
  from execute_task_run [OF assms]
  consider "evs = [] \<or> (\<exists>x. evs = [ResetLastUsedTool x])"
    | h prompt parsed self1 where "reset_tools_handler env self = Inr h"
      "and_then (base_prompt env self task context) (memory_step env self task context)
         = Inr prompt"
      "create_agent_executor env self (list_or ta (tools self)) = Inr self1"
      "run_executor env self1 task prompt parsed h = (r, self', evs)"
    by blast
  then show ?thesis
  proof cases
    case 1
    then show ?thesis by blast
  next
    case 2
    from reset_tools_handler_events [OF 2(1)]
    have hs: "h = [] \<or> (\<exists>x. h = [ResetLastUsedTool x])" .
    from run_executor_events [OF 2(4)] create_agent_executor_keeps [OF 2(3)] 2(2)
    have "evs = h
          \<or> (\<exists>d prompt.
                and_then (base_prompt env self task context) (memory_step env self task context)
                  = Inr prompt
              \<and> map_of d ''input'' = Some prompt
              \<and> (evs = h @ [Invoke d]
                 \<or> (int_truthy (max_rpm self)
                    \<and> (\<exists>c. rpm_controller self = Some c
                           \<and> evs = h @ [Invoke d, StopRpmCounter c]))))"
      by auto
    with hs show ?thesis by blast
  qed
qed

lemma execute_task_success:
  assumes "execute_task env self task context ta = (Inr res, self', evs)"
  shows "\<exists>prompt ts parsed self1 ex0 description names out.
           and_then (base_prompt env self task context) (memory_step env self task context)
             = Inr prompt
         \<and> list_or ta (tools self) = Some ts
         \<and> parse_tools env (Some ts) = Inr parsed
         \<and> create_agent_executor env self (list_or ta (tools self)) = Inr self1
         \<and> agent_executor self1 = Some ex0
         \<and> ex_original_tools ex0 = Some ts
         \<and> render_text_description env parsed = Inr description
         \<and> tools_names env parsed = Inr names
         \<and> self' = self1\<lparr>agent_executor := Some (ex0\<lparr>ex_tools := parsed, ex_task := Some task,
               ex_tools_description := Some description, ex_tools_names := Some names\<rparr>)\<rparr>
         \<and> executor_invoke env
               (ex0\<lparr>ex_tools := parsed, ex_task := Some task,
                    ex_tools_description := Some description, ex_tools_names := Some names\<rparr>)
               [(''input'', prompt), (''tool_names'', names), (''tools'', description)] = Inr out
         \<and> map_of out ''output'' = Some res
         \<and> (int_truthy (max_rpm self)
              \<longrightarrow> (\<exists>before c. rpm_controller self = Some c
                     \<and> evs = before @ [StopRpmCounter c]))"
proof -
  let ?tu = "list_or ta (tools self)"
  from execute_task_run [OF assms] obtain h prompt parsed self1 where
    p: "and_then (base_prompt env self task context) (memory_step env self task context)
         = Inr prompt"
    and ps: "parse_tools env (list_or ?tu (Some [])) = Inr parsed"
    and c: "create_agent_executor env self ?tu = Inr self1"
    and run: "run_executor env self1 task prompt parsed h = (Inr res, self', evs)"
    by auto
  from create_agent_executor_success [OF c] obtain ex0 parsed0 where
    ex0: "agent_executor self1 = Some ex0" "ex_original_tools ex0 = list_or ?tu (tools self)"
    and p0: "parse_tools env (list_or ?tu (tools self)) = Inr parsed0"
    by auto
  from p0 have p1: "parse_tools env ?tu = Inr parsed0" by (simp add: list_or_idem)
  have "?tu \<noteq> None"
  proof
    assume "?tu = None"
    with p1 have "parse_tools env None = Inr parsed0" by simp
    then show False by (rule parse_tools_None)
  qed
  then obtain ts where ts: "?tu = Some ts" by blast
  with ps have ps': "parse_tools env (Some ts) = Inr parsed"
    by (simp add: list_or_Some_Nil)
  have "list_or ?tu (tools self) = ?tu" by (rule list_or_idem)
  with ex0 ts have ot: "ex_original_tools ex0 = Some ts" by simp
  from run_executor_success [OF run] create_agent_executor_keeps [OF c]
  have rpm: "int_truthy (max_rpm self)
      \<longrightarrow> (\<exists>before c. rpm_controller self = Some c \<and> evs = before @ [StopRpmCounter c])"
    by (auto split: if_splits)
  from run_executor_success [OF run] ex0 p ts ps' c ot rpm show ?thesis
    by (auto simp del: executor.simps)
qed

subsection \<open>Rate limiting\<close>

lemma demo_execute:
  "execute_task demo_env demo_agent 50 None None
     = (Inr ''Do it.# Useful context: old facts'',
        snd (execute_task demo_env demo_agent 50 None None))
   \<and> snd (snd (execute_task demo_env demo_agent 50 None None))
     = [ResetLastUsedTool 9,
        Invoke [(''input'', ''Do it.# Useful context: old facts''), (''tool_names'', ''o, o''),
                (''tools'', ''tt'')],
        StopRpmCounter 10]"
  by (simp add: execute_task_def reset_tools_handler_def run_executor_def finish_task_def base_prompt_def memory_step_def
      tools_names_def create_agent_executor_def new_executor_def assemble_def demo_env_def demo_agent_def parse_tools_def
      stop_words_def demo_slice_def Let_def strip_def is_space_def format_fields_def)

text \<open>
  C5. The executor built by \<open>create_agent_executor\<close> gets the controller's
  \<open>check_or_wait\<close> as \<open>request_within_rpm_limit\<close> when the agent has a controller and no such
  argument when it has none. In \<open>execute_task\<close> the only call on the controller is
  \<open>stop_rpm_counter\<close>: it happens at most once, as the last effect, only when \<open>max_rpm\<close> is
  set (truthy), and it does happen whenever the task returns with \<open>max_rpm\<close> truthy.
\<close>

theorem rate_limiting_delegated:
  "(create_agent_executor env self ta = Inr self'
      \<longrightarrow> (\<exists>ex. agent_executor self' = Some ex
             \<and> ex_request_within_rpm_limit ex
                 = (case rpm_controller self of None \<Rightarrow> None | Some c \<Rightarrow> Some (CheckOrWait c))))
   \<and> (execute_task env self task ctx ta = (r, final, evs)
      \<longrightarrow> (filter is_rpm_event evs = []
           \<or> (int_truthy (max_rpm self)
              \<and> (\<exists>c pre. rpm_controller self = Some c \<and> evs = pre @ [StopRpmCounter c]
                     \<and> filter is_rpm_event pre = [])))
        \<and> ((\<exists>res. r = Inr res) \<and> int_truthy (max_rpm self) \<longrightarrow> filter is_rpm_event evs \<noteq> []))"
proof (intro conjI impI)
  assume "create_agent_executor env self ta = Inr self'"
  from create_agent_executor_success [OF this]
  show "\<exists>ex. agent_executor self' = Some ex
             \<and> ex_request_within_rpm_limit ex
                 = (case rpm_controller self of None \<Rightarrow> None | Some c \<Rightarrow> Some (CheckOrWait c))"
    by (auto split: option.splits)
next
  assume a: "execute_task env self task ctx ta = (r, final, evs)"
  from execute_task_events [OF a] obtain h where
    hs: "h = [] \<or> (\<exists>x. h = [ResetLastUsedTool x])"
    and ev: "evs = h
      \<or> (\<exists>d. evs = h @ [Invoke d]
             \<or> (int_truthy (max_rpm self)
                \<and> (\<exists>c. rpm_controller self = Some c
                       \<and> evs = h @ [Invoke d, StopRpmCounter c])))"
    by blast
  from hs have h: "filter is_rpm_event h = []" by auto
  from ev
  consider "evs = h" | d where "evs = h @ [Invoke d]"
    | d c where "int_truthy (max_rpm self)" "rpm_controller self = Some c"
        "evs = h @ [Invoke d, StopRpmCounter c]"
    by auto
  then show "filter is_rpm_event evs = []
           \<or> (int_truthy (max_rpm self)
              \<and> (\<exists>c pre. rpm_controller self = Some c \<and> evs = pre @ [StopRpmCounter c]
                     \<and> filter is_rpm_event pre = []))"
  proof cases
    case 1
    with h show ?thesis by simp
  next
    case 2
    with h show ?thesis by simp
  next
    case 3
    then have "evs = (h @ [Invoke d]) @ [StopRpmCounter c]"
      "filter is_rpm_event (h @ [Invoke d]) = []"
      using h by simp_all
    with 3 show ?thesis by blast
  qed
next
  assume a: "execute_task env self task ctx ta = (r, final, evs)"
    and b: "(\<exists>res. r = Inr res) \<and> int_truthy (max_rpm self)"
  then obtain res where r: "r = Inr res" by blast
  from a r have a': "execute_task env self task ctx ta = (Inr res, final, evs)" by simp
  from execute_task_success [OF a'] b obtain before c where
    "evs = before @ [StopRpmCounter c]" by blast
  then show "filter is_rpm_event evs \<noteq> []" by simp
qed

theorem rate_limiting_delegated_witness:
  "(\<exists>self' ex. create_agent_executor demo_env demo_agent None = Inr self'
       \<and> agent_executor self' = Some ex
       \<and> ex_request_within_rpm_limit ex = Some (CheckOrWait 10))
   \<and> (\<exists>r final evs. execute_task demo_env demo_agent 50 None None = (r, final, evs)
       \<and> int_truthy (max_rpm demo_agent)
       \<and> evs = [ResetLastUsedTool 9,
                 Invoke [(''input'', ''Do it.# Useful context: old facts''),
                         (''tool_names'', ''o, o''), (''tools'', ''tt'')]]
               @ [StopRpmCounter 10]
       \<and> filter is_rpm_event evs \<noteq> [])"
proof -
  obtain s where h: "create_agent_executor demo_env demo_agent None = Inr s"
    using demo_create by blast
  obtain r s2 evs where e: "execute_task demo_env demo_agent 50 None None = (r, s2, evs)"
    by (cases "execute_task demo_env demo_agent 50 None None") auto
  with demo_execute have r: "r = Inr ''Do it.# Useful context: old facts''"
    and evs: "evs = [ResetLastUsedTool 9,
        Invoke [(''input'', ''Do it.# Useful context: old facts''), (''tool_names'', ''o, o''),
                (''tools'', ''tt'')],
        StopRpmCounter 10]"
    by simp_all
  have m: "int_truthy (max_rpm demo_agent)" by (simp add: demo_agent_def)
  from rate_limiting_delegated [where env = demo_env and self = demo_agent and ta = None
      and self' = s and task = 50 and ctx = None and r = r and final = s2 and evs = evs] h e r m
  have 1: "\<exists>ex. agent_executor s = Some ex
      \<and> ex_request_within_rpm_limit ex
          = (case rpm_controller demo_agent of None \<Rightarrow> None | Some c \<Rightarrow> Some (CheckOrWait c))"
    and 2: "filter is_rpm_event evs \<noteq> []"
    by blast+
  from 1 have "\<exists>ex. agent_executor s = Some ex
      \<and> ex_request_within_rpm_limit ex = Some (CheckOrWait 10)"
    by (simp add: demo_agent_def)
  with h e evs m 2 show ?thesis by auto
qed

subsection \<open>The execution prompt and the empty tool list\<close>

text \<open>
  C6, as amended. Whenever \<open>create_agent_executor\<close> returns, the prompt stage of the
  executor's runnable is the \<open>task_execution\<close> prompt that \<open>Prompts\<close> builds from the agent's
  i18n, the tool list in use (the list given when non-empty, the agent's own otherwise) and the
  agent's three templates, partially applied with the agent's goal, role and backstory. When no
  list or an empty list is given, that is the prompt built from the agent's own tools.
\<close>

theorem execution_prompt_delegated:
  assumes "create_agent_executor env self ta = Inr self'"
  shows "\<exists>ex prompt. agent_executor self' = Some ex
           \<and> prompts_task_execution env (i18n self) (list_or ta (tools self))
                 (system_template self) (prompt_template self) (response_template self)
               = Inr prompt
           \<and> prompt_partial env prompt (goal self) (role self) (backstory self)
               = Inr (r_prompt (ex_agent ex))
           \<and> (ta = None \<or> ta = Some []
                \<longrightarrow> claimed_execution_prompt env self = Inr (r_prompt (ex_agent ex)))"
proof -
  from create_agent_executor_success [OF assms] obtain ex prompt where
    ex: "agent_executor self' = Some ex"
    and p: "prompts_task_execution env (i18n self) (list_or ta (tools self))
                 (system_template self) (prompt_template self) (response_template self)
               = Inr prompt"
    and q: "prompt_partial env prompt (goal self) (role self) (backstory self)
               = Inr (r_prompt (ex_agent ex))"
    by auto
  have "ta = None \<or> ta = Some []
      \<longrightarrow> claimed_execution_prompt env self = Inr (r_prompt (ex_agent ex))"
    using p q by (auto simp: claimed_execution_prompt_def)
  with ex p q show ?thesis by blast
qed

theorem execution_prompt_delegated_witness:
  "\<exists>self' ex. create_agent_executor demo_env demo_agent (Some [CrewAITool 7]) = Inr self'
      \<and> agent_executor self' = Some ex
      \<and> prompts_task_execution demo_env 3 (Some [CrewAITool 7]) None None None = Inr 21
      \<and> prompt_partial demo_env 21 ''report'' ''analyst'' ''senior'' = Inr 121
      \<and> r_prompt (ex_agent ex) = 121"
proof -
  obtain s where h: "create_agent_executor demo_env demo_agent (Some [CrewAITool 7]) = Inr s"
    using demo_create_given by blast
  from execution_prompt_delegated [OF h] h show ?thesis
    by (auto simp: demo_env_def demo_agent_def)
qed

theorem execution_prompt_own_tools_counterexample:
  "prompt_of (create_agent_executor demo_env (demo_agent\<lparr>tools := Some []\<rparr>)
                (Some [OtherTool 5])) = Some 121
   \<and> claimed_execution_prompt demo_env (demo_agent\<lparr>tools := Some []\<rparr>) = Inr 120"
  by (simp add: create_agent_executor_def new_executor_def assemble_def claimed_execution_prompt_def demo_env_def
      demo_agent_def parse_tools_def stop_words_def demo_slice_def Let_def)

text \<open>
  C10. \<open>execute_task\<close> with the empty tool list is \<open>execute_task\<close> with no tool list: same
  result, same final agent, same effects. When it returns, the executor's \<open>original_tools\<close> is
  the agent's own list, its \<open>tools\<close> is \<open>_parse_tools\<close> of that list, and its tools description
  and tool names are computed from those parsed tools.
\<close>

theorem execute_task_empty_tools:
  "execute_task env self task ctx (Some []) = execute_task env self task ctx None
   \<and> (execute_task env self task ctx (Some []) = (Inr res, final, evs)
      \<longrightarrow> (\<exists>ex ts parsed description names.
             agent_executor final = Some ex
           \<and> tools self = Some ts
           \<and> ex_original_tools ex = Some ts
           \<and> parse_tools env (Some ts) = Inr parsed
           \<and> ex_tools ex = parsed
           \<and> render_text_description env parsed = Inr description
           \<and> ex_tools_description ex = Some description
           \<and> tools_names env parsed = Inr names
           \<and> ex_tools_names ex = Some names))"
proof (intro conjI impI)
  show "execute_task env self task ctx (Some []) = execute_task env self task ctx None"
    unfolding execute_task_def reset_tools_handler_def list_or_falsy by (rule refl)
next
  assume "execute_task env self task ctx (Some []) = (Inr res, final, evs)"
  from execute_task_success [OF this]
  show "\<exists>ex ts parsed description names.
             agent_executor final = Some ex
           \<and> tools self = Some ts
           \<and> ex_original_tools ex = Some ts
           \<and> parse_tools env (Some ts) = Inr parsed
           \<and> ex_tools ex = parsed
           \<and> render_text_description env parsed = Inr description
           \<and> ex_tools_description ex = Some description
           \<and> tools_names env parsed = Inr names
           \<and> ex_tools_names ex = Some names"
    by (elim exE conjE) simp
qed

lemma demo_execute_empty:
  "fst (execute_task demo_env demo_agent 50 None (Some []))
     = Inr ''Do it.# Useful context: old facts''"
  by (simp add: execute_task_def reset_tools_handler_def run_executor_def finish_task_def base_prompt_def memory_step_def
      tools_names_def create_agent_executor_def new_executor_def assemble_def demo_env_def demo_agent_def parse_tools_def
      stop_words_def demo_slice_def Let_def strip_def is_space_def format_fields_def)

theorem execute_task_empty_tools_witness:
  "\<exists>final evs ex. execute_task demo_env demo_agent 50 None (Some [])
        = (Inr ''Do it.# Useful context: old facts'', final, evs)
      \<and> agent_executor final = Some ex
      \<and> ex_original_tools ex = Some [CrewAITool 7, OtherTool 8]
      \<and> ex_tools ex = [OtherTool 107, OtherTool 8]
      \<and> ex_tools_description ex = Some ''tt''
      \<and> ex_tools_names ex = Some ''o, o''"
proof -
  obtain final evs where e: "execute_task demo_env demo_agent 50 None (Some [])
        = (Inr ''Do it.# Useful context: old facts'', final, evs)"
    using demo_execute_empty
    by (cases "execute_task demo_env demo_agent 50 None (Some [])") auto
  from execute_task_empty_tools [where env = demo_env and self = demo_agent and task = 50
      and ctx = None and res = "''Do it.# Useful context: old facts''" and final = final
      and evs = evs] e
  obtain ex ts parsed description names where
    ex: "agent_executor final = Some ex"
    and ts: "tools demo_agent = Some ts"
    and ot: "ex_original_tools ex = Some ts"
    and ps: "parse_tools demo_env (Some ts) = Inr parsed"
    and et: "ex_tools ex = parsed"
    and rd: "render_text_description demo_env parsed = Inr description"
    and ed: "ex_tools_description ex = Some description"
    and tn: "tools_names demo_env parsed = Inr names"
    and en: "ex_tools_names ex = Some names"
    by blast
  from ts have ts': "ts = [CrewAITool 7, OtherTool 8]" by (simp add: demo_agent_def)
  from ps have p': "parsed = [OtherTool 107, OtherTool 8]"
    unfolding ts' by (simp add: demo_env_def parse_tools_def)
  from rd have d': "description = ''tt''" unfolding p' by (simp add: demo_env_def)
  from tn have n': "names = ''o, o''" unfolding p' by (simp add: demo_env_def tools_names_def)
  from ex ot et ed en ts' p' d' n' have "agent_executor final = Some ex
      \<and> ex_original_tools ex = Some [CrewAITool 7, OtherTool 8]
      \<and> ex_tools ex = [OtherTool 107, OtherTool 8]
      \<and> ex_tools_description ex = Some ''tt''
      \<and> ex_tools_names ex = Some ''o, o''"
    by simp
  with e show ?thesis by blast
qed

subsection \<open>The memory step\<close>

lemma execute_task_invoke_input:
  assumes "execute_task env self task ctx ta = (r, final, evs)" and "Invoke d \<in> set evs"
  shows "\<exists>base. base_prompt env self task ctx = Inr base
           \<and> (\<exists>p. memory_step env self task ctx base = Inr p \<and> map_of d ''input'' = Some p)"
proof -
  from execute_task_events [OF assms(1)] obtain h where
    hs: "h = [] \<or> (\<exists>x. h = [ResetLastUsedTool x])"
    and ev: "evs = h
      \<or> (\<exists>d prompt.
            and_then (base_prompt env self task ctx) (memory_step env self task ctx) = Inr prompt
          \<and> map_of d ''input'' = Some prompt
          \<and> (evs = h @ [Invoke d]
             \<or> (int_truthy (max_rpm self)
                \<and> (\<exists>c. rpm_controller self = Some c
                       \<and> evs = h @ [Invoke d, StopRpmCounter c]))))"
    by blast
  from hs have h: "Invoke d \<notin> set h" by auto
  from ev assms(2) h
  obtain d' prompt where
    p: "and_then (base_prompt env self task ctx) (memory_step env self task ctx) = Inr prompt"
    and i: "map_of d' ''input'' = Some prompt"
    and e: "evs = h @ [Invoke d'] \<or> (\<exists>c. evs = h @ [Invoke d', StopRpmCounter c])"
    by auto
  from e assms(2) h have "d = d'" by auto
  with p i show ?thesis by (auto simp: and_then_Inr)
qed

text \<open>
  C7, as amended. In every call of \<open>execute_task\<close> that reaches \<open>invoke\<close>, the input given to
  the executor is the task prompt (with its context) unchanged when the agent has no crew or
  the crew's memory is off. With memory on, \<open>build_context_for_task\<close> returns a text \<open>mem\<close>;
  the prompt is unchanged when \<open>mem\<close> is blank after stripping, and otherwise the text
  appended is the i18n slice \<open>memory\<close> formatted with \<open>memory = mem\<close>, \<open>mem\<close> itself being
  passed on unchanged.
\<close>

theorem memory_step_delegated:
  assumes "execute_task env self task ctx ta = (r, final, evs)" and "Invoke d \<in> set evs"
  shows "\<exists>base. base_prompt env self task ctx = Inr base
     \<and> (crew self = None \<longrightarrow> map_of d ''input'' = Some base)
     \<and> (\<forall>cr. crew self = Some cr \<and> \<not> memory cr \<longrightarrow> map_of d ''input'' = Some base)
     \<and> (\<forall>cr. crew self = Some cr \<and> memory cr \<longrightarrow>
          (\<exists>mem. build_context_for_task env
                    (short_term_memory cr, long_term_memory cr, entity_memory cr) task ctx
                  = Inr mem
             \<and> (strip mem = [] \<longrightarrow> map_of d ''input'' = Some base)
             \<and> (strip mem \<noteq> [] \<longrightarrow>
                  (\<exists>t s. i18n_slice env (i18n self) ''memory'' = Inr t
                       \<and> str_format env t [(''memory'', mem)] = Inr s
                       \<and> map_of d ''input'' = Some (base @ s)))))"
proof -
  from execute_task_invoke_input [OF assms] obtain base p where
    b: "base_prompt env self task ctx = Inr base"
    and m: "memory_step env self task ctx base = Inr p"
    and i: "map_of d ''input'' = Some p"
    by blast
  have 1: "crew self = None \<longrightarrow> map_of d ''input'' = Some base"
    using m i by (auto simp: memory_step_def)
  have 2: "\<forall>cr. crew self = Some cr \<and> \<not> memory cr \<longrightarrow> map_of d ''input'' = Some base"
    using m i by (auto simp: memory_step_def)
  have 3: "\<forall>cr. crew self = Some cr \<and> memory cr \<longrightarrow>
          (\<exists>mem. build_context_for_task env
                    (short_term_memory cr, long_term_memory cr, entity_memory cr) task ctx
                  = Inr mem
             \<and> (strip mem = [] \<longrightarrow> map_of d ''input'' = Some base)
             \<and> (strip mem \<noteq> [] \<longrightarrow>
                  (\<exists>t s. i18n_slice env (i18n self) ''memory'' = Inr t
                       \<and> str_format env t [(''memory'', mem)] = Inr s
                       \<and> map_of d ''input'' = Some (base @ s))))"
  proof (intro allI impI)
    fix cr assume c: "crew self = Some cr \<and> memory cr"
    with m obtain mem where
      bc: "build_context_for_task env
             (short_term_memory cr, long_term_memory cr, entity_memory cr) task ctx = Inr mem"
      and rest: "(if strip mem \<noteq> [] then
                   and_then (i18n_slice env (i18n self) ''memory'') (\<lambda>t.
                   and_then (str_format env t [(''memory'', mem)]) (\<lambda>s. Inr (base @ s)))
                 else Inr base) = Inr p"
      by (auto simp: memory_step_def and_then_Inr)
    have a: "strip mem = [] \<longrightarrow> map_of d ''input'' = Some base"
      using rest i by auto
    have b: "strip mem \<noteq> [] \<longrightarrow>
                  (\<exists>t s. i18n_slice env (i18n self) ''memory'' = Inr t
                       \<and> str_format env t [(''memory'', mem)] = Inr s
                       \<and> map_of d ''input'' = Some (base @ s))"
      using rest i by (auto simp: and_then_Inr)
    from bc a b show "\<exists>mem. build_context_for_task env
                    (short_term_memory cr, long_term_memory cr, entity_memory cr) task ctx
                  = Inr mem
             \<and> (strip mem = [] \<longrightarrow> map_of d ''input'' = Some base)
             \<and> (strip mem \<noteq> [] \<longrightarrow>
                  (\<exists>t s. i18n_slice env (i18n self) ''memory'' = Inr t
                       \<and> str_format env t [(''memory'', mem)] = Inr s
                       \<and> map_of d ''input'' = Some (base @ s)))"
      by blast
  qed
  from b 1 2 3 show ?thesis
    by - (rule exI [of _ base], (intro conjI; assumption))
qed

lemma demo_execute_blank:
  "snd (snd (execute_task (demo_env\<lparr>build_context_for_task := \<lambda>ms t c. Inr [CHR 0xA0, CHR 0x20]\<rparr>)
               demo_agent 50 None None))
     = [ResetLastUsedTool 9,
        Invoke [(''input'', ''Do it.''), (''tool_names'', ''o, o''), (''tools'', ''tt'')],
        StopRpmCounter 10]"
  by (simp add: execute_task_def reset_tools_handler_def run_executor_def finish_task_def base_prompt_def memory_step_def
      tools_names_def create_agent_executor_def new_executor_def assemble_def demo_env_def demo_agent_def parse_tools_def
      stop_words_def demo_slice_def Let_def strip_def is_space_def format_fields_def)

lemma demo_execute_no_crew:
  "snd (snd (execute_task demo_env (demo_agent\<lparr>crew := None\<rparr>) 50 None None))
     = [ResetLastUsedTool 9,
        Invoke [(''input'', ''Do it.''), (''tool_names'', ''o, o''), (''tools'', ''tt'')],
        StopRpmCounter 10]"
  by (simp add: execute_task_def reset_tools_handler_def run_executor_def finish_task_def base_prompt_def memory_step_def
      tools_names_def create_agent_executor_def new_executor_def assemble_def demo_env_def demo_agent_def parse_tools_def
      stop_words_def demo_slice_def Let_def strip_def is_space_def format_fields_def)

theorem memory_step_delegated_witness:
  "(\<exists>r final evs d.
      execute_task demo_env demo_agent 50 None None = (r, final, evs)
    \<and> Invoke d \<in> set evs
    \<and> base_prompt demo_env demo_agent 50 None = Inr ''Do it.''
    \<and> build_context_for_task demo_env (4, 5, 6) 50 None = Inr ''old facts''
    \<and> i18n_slice demo_env 3 ''memory'' = Inr ''# Useful context: {memory}''
    \<and> str_format demo_env ''# Useful context: {memory}'' [(''memory'', ''old facts'')]
        = Inr ''# Useful context: old facts''
    \<and> map_of d ''input'' = Some (''Do it.'' @ ''# Useful context: old facts''))
   \<and> (\<exists>r final evs d.
        execute_task demo_env (demo_agent\<lparr>crew := None\<rparr>) 50 None None = (r, final, evs)
      \<and> Invoke d \<in> set evs
      \<and> map_of d ''input'' = Some ''Do it.'')
   \<and> (\<exists>r final evs d.
        execute_task (demo_env\<lparr>build_context_for_task := \<lambda>ms t c. Inr [CHR 0xA0, CHR 0x20]\<rparr>)
          demo_agent 50 None None = (r, final, evs)
      \<and> Invoke d \<in> set evs
      \<and> strip [CHR 0xA0, CHR 0x20] = []
      \<and> map_of d ''input'' = Some ''Do it.'')"
proof -
  let ?d = "[(''input'', ''Do it.# Useful context: old facts''), (''tool_names'', ''o, o''),
             (''tools'', ''tt'')]"
  obtain r final evs where e: "execute_task demo_env demo_agent 50 None None = (r, final, evs)"
    by (cases "execute_task demo_env demo_agent 50 None None") auto
  with demo_execute have i: "Invoke ?d \<in> set evs" by simp
  have c: "crew demo_agent = Some \<lparr> memory = True, short_term_memory = 4, long_term_memory = 5,
                     entity_memory = 6 \<rparr>"
    by (simp add: demo_agent_def)
  from memory_step_delegated [OF e i] c
  have "base_prompt demo_env demo_agent 50 None = Inr ''Do it.''
    \<and> build_context_for_task demo_env (4, 5, 6) 50 None = Inr ''old facts''
    \<and> i18n_slice demo_env 3 ''memory'' = Inr ''# Useful context: {memory}''
    \<and> str_format demo_env ''# Useful context: {memory}'' [(''memory'', ''old facts'')]
        = Inr ''# Useful context: old facts''
    \<and> map_of ?d ''input'' = Some (''Do it.'' @ ''# Useful context: old facts'')"
    by (simp add: demo_env_def demo_slice_def base_prompt_def format_fields_def)
  with e i have 1: "\<exists>r final evs d.
      execute_task demo_env demo_agent 50 None None = (r, final, evs)
    \<and> Invoke d \<in> set evs
    \<and> base_prompt demo_env demo_agent 50 None = Inr ''Do it.''
    \<and> build_context_for_task demo_env (4, 5, 6) 50 None = Inr ''old facts''
    \<and> i18n_slice demo_env 3 ''memory'' = Inr ''# Useful context: {memory}''
    \<and> str_format demo_env ''# Useful context: {memory}'' [(''memory'', ''old facts'')]
        = Inr ''# Useful context: old facts''
    \<and> map_of d ''input'' = Some (''Do it.'' @ ''# Useful context: old facts'')"
    by blast
  let ?d2 = "[(''input'', ''Do it.''), (''tool_names'', ''o, o''), (''tools'', ''tt'')]"
  obtain r2 final2 evs2 where
    e2: "execute_task demo_env (demo_agent\<lparr>crew := None\<rparr>) 50 None None = (r2, final2, evs2)"
    by (cases "execute_task demo_env (demo_agent\<lparr>crew := None\<rparr>) 50 None None") auto
  with demo_execute_no_crew have i2: "Invoke ?d2 \<in> set evs2" by simp
  from memory_step_delegated [OF e2 i2]
  have "map_of ?d2 ''input'' = Some ''Do it.''"
    by (simp add: demo_env_def base_prompt_def)
  with e2 i2 have 2: "\<exists>r final evs d.
        execute_task demo_env (demo_agent\<lparr>crew := None\<rparr>) 50 None None = (r, final, evs)
      \<and> Invoke d \<in> set evs
      \<and> map_of d ''input'' = Some ''Do it.''"
    by blast
  let ?env3 = "demo_env\<lparr>build_context_for_task := \<lambda>ms t c. Inr [CHR 0xA0, CHR 0x20]\<rparr>"
  obtain r3 final3 evs3 where
    e3: "execute_task ?env3 demo_agent 50 None None = (r3, final3, evs3)"
    by (cases "execute_task ?env3 demo_agent 50 None None") auto
  with demo_execute_blank have i3: "Invoke ?d2 \<in> set evs3" by simp
  have s3: "strip [CHR 0xA0, CHR 0x20] = []" by (simp add: strip_def is_space_def)
  from memory_step_delegated [OF e3 i3] c s3
  have "map_of ?d2 ''input'' = Some ''Do it.''"
    by (simp add: demo_env_def base_prompt_def)
  with e3 i3 s3 have 3: "\<exists>r final evs d.
        execute_task ?env3 demo_agent 50 None None = (r, final, evs)
      \<and> Invoke d \<in> set evs
      \<and> strip [CHR 0xA0, CHR 0x20] = []
      \<and> map_of d ''input'' = Some ''Do it.''"
    by blast
  from 1 2 3 show ?thesis by blast
qed

theorem memory_text_counterexample:
  "snd (snd (execute_task demo_env demo_agent 50 None None))
     = [ResetLastUsedTool 9,
        Invoke [(''input'', ''Do it.# Useful context: old facts''), (''tool_names'', ''o, o''),
                (''tools'', ''tt'')],
        StopRpmCounter 10]
   \<and> base_prompt demo_env demo_agent 50 None = Inr ''Do it.''
   \<and> build_context_for_task demo_env (4, 5, 6) 50 None = Inr ''old facts''
   \<and> ''Do it.# Useful context: old facts'' \<noteq> ''Do it.'' @ ''old facts''"
  using demo_execute by (simp add: demo_env_def base_prompt_def)

subsection \<open>Splitting at a separator\<close>

lemma split_from_absent:
  "\<not> sublist sep s \<Longrightarrow> split_from sep cur s = [cur @ s]"
proof (induction s arbitrary: cur)
  case Nil
  then show ?case by (simp add: split_from.simps)
next
  case (Cons c cs)
  from Cons.prems have np: "\<not> prefix sep (c # cs)" and ns: "\<not> sublist sep cs"
    by (auto simp: sublist_Cons_right)
  have "split_from sep cur (c # cs) = split_from sep (cur @ [c]) cs"
    using np by (subst split_from.simps) simp
  with Cons.IH [OF ns] show ?case by simp
qed

lemma split_from_first:
  assumes "sep \<noteq> []"
  shows "\<not> sublist sep (pre @ butlast sep)
         \<Longrightarrow> split_from sep cur (pre @ sep @ post) = (cur @ pre) # split_from sep [] post"
proof (induction pre arbitrary: cur)
  case Nil
  from assms have "sep @ post \<noteq> []" by simp
  then show ?case using assms by (subst split_from.simps) simp
next
  case (Cons c p)
  have np: "\<not> prefix sep (c # p @ sep @ post)"
  proof
    assume a: "prefix sep (c # p @ sep @ post)"
    have b: "prefix ((c # p) @ butlast sep) (c # p @ sep @ post)"
      using assms by (simp add: prefix_def) (metis append_butlast_last_id append_assoc)
    have "length sep \<le> length ((c # p) @ butlast sep)" using assms by simp
    with a b have "prefix sep ((c # p) @ butlast sep)"
      by (rule prefix_length_prefix)
    then have "sublist sep ((c # p) @ butlast sep)" by (rule prefix_imp_sublist)
    with Cons.prems show False by simp
  qed
  from Cons.prems have ns: "\<not> sublist sep (p @ butlast sep)"
    by (auto simp: sublist_Cons_right)
  have "split_from sep cur ((c # p) @ sep @ post) = split_from sep (cur @ [c]) (p @ sep @ post)"
    using np by (subst split_from.simps) simp
  with Cons.IH [OF ns] show ?case by simp
qed

lemma first_occurrence:
  assumes "sep \<noteq> []"
  shows "sublist sep s
         \<Longrightarrow> \<exists>pre post. s = pre @ sep @ post \<and> \<not> sublist sep (pre @ butlast sep)"
proof (induction s)
  case Nil
  with assms show ?case by simp
next
  case (Cons c cs)
  show ?case
  proof (cases "prefix sep (c # cs)")
    case True
    then obtain post where "c # cs = [] @ sep @ post" by (auto simp: prefix_def)
    moreover have "\<not> sublist sep ([] @ butlast sep)"
    proof
      assume "sublist sep ([] @ butlast sep)"
      then have "sublist sep (butlast sep)" by simp
      then have "length sep \<le> length (butlast sep)" by (rule sublist_length_le)
      moreover have "length (butlast sep) < length sep"
        using assms by (cases sep rule: rev_cases) simp_all
      ultimately show False by linarith
    qed
    ultimately show ?thesis by blast
  next
    case False
    with Cons.prems have "sublist sep cs" by (simp add: sublist_Cons_right)
    from Cons.IH [OF this] obtain pre post where
      s: "cs = pre @ sep @ post" and n: "\<not> sublist sep (pre @ butlast sep)"
      by blast
    have "\<not> sublist sep ((c # pre) @ butlast sep)"
    proof
      assume "sublist sep ((c # pre) @ butlast sep)"
      with n have a: "prefix sep ((c # pre) @ butlast sep)" by (simp add: sublist_Cons_right)
      have "prefix ((c # pre) @ butlast sep) (c # cs)"
        using assms s by (simp add: prefix_def) (metis append_butlast_last_id append_assoc)
      with a have "prefix sep (c # cs)" by (rule prefix_order.trans)
      with False show False by simp
    qed
    with s show ?thesis by (metis append_Cons)
  qed
qed

lemma split_piece:
  assumes "sep \<noteq> []"
  shows "\<exists>mid rest ps. s = mid @ rest \<and> split_from sep [] s = mid # ps
           \<and> (rest = [] \<and> \<not> sublist sep mid
              \<or> prefix sep rest \<and> \<not> sublist sep (mid @ butlast sep))"
proof (cases "sublist sep s")
  case False
  then have "split_from sep [] s = [s]" by (simp add: split_from_absent)
  with False show ?thesis by auto
next
  case True
  from first_occurrence [OF assms True] obtain mid post where
    s: "s = mid @ sep @ post" and n: "\<not> sublist sep (mid @ butlast sep)"
    by blast
  from split_from_first [OF assms n, of "[]" post] s
  have "split_from sep [] s = mid # split_from sep [] post" by simp
  with s n show ?thesis by (auto simp: prefix_def)
qed

subsection \<open>The stop words\<close>

lemma response_marker_nonempty: "response_marker \<noteq> []"
  by (simp add: response_marker_def)

lemma stop_words_absent:
  assumes "i18n_slice env (i18n self) ''observation'' = Inr obs"
    and "response_template self = Some t" and "t \<noteq> []"
    and "\<not> sublist response_marker t"
  shows "stop_words env self = Inl IndexError"
  using assms by (simp add: stop_words_def str_split_def split_from_absent)

lemma stop_words_present:
  assumes "i18n_slice env (i18n self) ''observation'' = Inr obs"
    and "response_template self = Some t"
    and "sublist response_marker t"
  shows "\<exists>pre mid rest. t = pre @ response_marker @ mid @ rest
           \<and> \<not> sublist response_marker (pre @ butlast response_marker)
           \<and> (rest = [] \<and> \<not> sublist response_marker mid
              \<or> prefix response_marker rest
                \<and> \<not> sublist response_marker (mid @ butlast response_marker))
           \<and> stop_words env self = Inr [obs, strip mid]"
proof -
  from first_occurrence [OF response_marker_nonempty assms(3)] obtain pre post where
    t: "t = pre @ response_marker @ post"
    and n: "\<not> sublist response_marker (pre @ butlast response_marker)"
    by blast
  from split_piece [OF response_marker_nonempty, of post] obtain mid rest ps where
    p: "post = mid @ rest" and sp: "split_from response_marker [] post = mid # ps"
    and c: "rest = [] \<and> \<not> sublist response_marker mid
              \<or> prefix response_marker rest
                \<and> \<not> sublist response_marker (mid @ butlast response_marker)"
    by blast
  from split_from_first [OF response_marker_nonempty n, of "[]" post] t sp
  have s: "str_split t response_marker = pre # mid # ps" by (simp add: str_split_def)
  from t response_marker_nonempty have "t \<noteq> []" by simp
  with assms(1,2) s have "stop_words env self = Inr [obs, strip mid]"
    by (simp add: stop_words_def)
  with t p n c show ?thesis by blast
qed

lemma stop_words_empty:
  assumes "i18n_slice env (i18n self) ''observation'' = Inr obs"
    and "response_template self = None \<or> response_template self = Some []"
  shows "stop_words env self = Inr [obs]"
  using assms by (auto simp: stop_words_def)

lemma create_agent_executor_bind:
  assumes "stop_words env self = Inr sw" and "create_agent_executor env self ta = Inr self'"
  shows "\<exists>ex. agent_executor self' = Some ex
           \<and> llm_bind env (llm self) sw = Inr (r_llm (ex_agent ex))"
  using create_agent_executor_success [OF assms(2)] assms(1) by auto

text \<open>
  C9, as amended. Let the calls before the stop-word computation return. If the agent's
  \<open>response_template\<close> is \<open>None\<close> or the empty string, the stop words are the i18n slice
  \<open>observation\<close> alone and the computation raises nothing. If it is a non-empty string \<open>t\<close>
  that does not contain the marker \<open>{{ .Response }}\<close>, \<open>create_agent_executor\<close> raises
  \<open>IndexError\<close>. If \<open>t\<close> contains the marker, \<open>t\<close> is \<open>pre\<close>, the first occurrence of the marker,
  \<open>mid\<close>, \<open>rest\<close>, where \<open>mid\<close> runs up to the next occurrence of the marker or to the end of
  \<open>t\<close>; the stop words are the slice \<open>observation\<close> followed by \<open>mid\<close> stripped. In each case
  the stop words are what \<open>llm.bind\<close> receives.
\<close>

theorem stop_words_computation:
  assumes "parse_tools env (list_or ta (tools self)) = Inr parsed"
    and "prompts_task_execution env (i18n self) (list_or ta (tools self)) (system_template self)
           (prompt_template self) (response_template self) = Inr prompt"
    and "prompt_partial env prompt (goal self) (role self) (backstory self) = Inr ep"
    and "i18n_slice env (i18n self) ''observation'' = Inr obs"
  shows "(response_template self = None \<or> response_template self = Some []
            \<longrightarrow> stop_words env self = Inr [obs]
              \<and> (\<forall>self'. create_agent_executor env self ta = Inr self'
                    \<longrightarrow> (\<exists>ex. agent_executor self' = Some ex
                           \<and> llm_bind env (llm self) [obs] = Inr (r_llm (ex_agent ex)))))
       \<and> (response_template self = Some t \<and> t \<noteq> [] \<and> \<not> sublist response_marker t
            \<longrightarrow> create_agent_executor env self ta = Inl IndexError)
       \<and> (response_template self = Some t \<and> sublist response_marker t
            \<longrightarrow> (\<exists>pre mid rest. t = pre @ response_marker @ mid @ rest
                   \<and> \<not> sublist response_marker (pre @ butlast response_marker)
                   \<and> (rest = [] \<and> \<not> sublist response_marker mid
                      \<or> prefix response_marker rest
                        \<and> \<not> sublist response_marker (mid @ butlast response_marker))
                   \<and> stop_words env self = Inr [obs, strip mid]
                   \<and> (\<forall>self'. create_agent_executor env self ta = Inr self'
                         \<longrightarrow> (\<exists>ex. agent_executor self' = Some ex
                                \<and> llm_bind env (llm self) [obs, strip mid]
                                    = Inr (r_llm (ex_agent ex))))))"
proof (intro conjI impI)
  assume e: "response_template self = None \<or> response_template self = Some []"
  from stop_words_empty [OF assms(4) e] show "stop_words env self = Inr [obs]" .
  then show "\<forall>self'. create_agent_executor env self ta = Inr self'
                    \<longrightarrow> (\<exists>ex. agent_executor self' = Some ex
                           \<and> llm_bind env (llm self) [obs] = Inr (r_llm (ex_agent ex)))"
    by (auto dest: create_agent_executor_bind)
next
  assume "response_template self = Some t \<and> t \<noteq> [] \<and> \<not> sublist response_marker t"
  with assms(4) have "stop_words env self = Inl IndexError" by (simp add: stop_words_absent)
  with assms(1-3) show "create_agent_executor env self ta = Inl IndexError"
    by (simp add: create_agent_executor_def Let_def)
next
  assume a: "response_template self = Some t \<and> sublist response_marker t"
  then have t: "response_template self = Some t" and s: "sublist response_marker t" by simp_all
  from stop_words_present [OF assms(4) t s] obtain pre mid rest where
    a: "t = pre @ response_marker @ mid @ rest"
    "\<not> sublist response_marker (pre @ butlast response_marker)"
    "rest = [] \<and> \<not> sublist response_marker mid
       \<or> prefix response_marker rest
         \<and> \<not> sublist response_marker (mid @ butlast response_marker)"
    and sw: "stop_words env self = Inr [obs, strip mid]"
    by blast
  from sw have "\<forall>self'. create_agent_executor env self ta = Inr self'
          \<longrightarrow> (\<exists>ex. agent_executor self' = Some ex
                 \<and> llm_bind env (llm self) [obs, strip mid] = Inr (r_llm (ex_agent ex)))"
    by (auto dest: create_agent_executor_bind)
  with a sw show "\<exists>pre mid rest. t = pre @ response_marker @ mid @ rest
                   \<and> \<not> sublist response_marker (pre @ butlast response_marker)
                   \<and> (rest = [] \<and> \<not> sublist response_marker mid
                      \<or> prefix response_marker rest
                        \<and> \<not> sublist response_marker (mid @ butlast response_marker))
                   \<and> stop_words env self = Inr [obs, strip mid]
                   \<and> (\<forall>self'. create_agent_executor env self ta = Inr self'
                         \<longrightarrow> (\<exists>ex. agent_executor self' = Some ex
                                \<and> llm_bind env (llm self) [obs, strip mid]
                                    = Inr (r_llm (ex_agent ex))))"
    by blast
qed

lemma demo_parse: "parse_tools demo_env (Some [CrewAITool 7, OtherTool 8])
    = Inr [OtherTool 107, OtherTool 8]"
  by (simp add: parse_tools_def demo_env_def)

lemma demo_create_empty_template:
  "\<exists>s. create_agent_executor demo_env (demo_agent\<lparr>response_template := Some []\<rparr>) None = Inr s"
  by (simp add: create_agent_executor_def new_executor_def assemble_def demo_env_def
      demo_agent_def parse_tools_def stop_words_def demo_slice_def Let_def)

theorem stop_words_computation_witness:
  "(\<not> sublist response_marker ''abc''
      \<and> create_agent_executor demo_env (demo_agent\<lparr>response_template := Some ''abc''\<rparr>) None
          = Inl IndexError)
   \<and> (sublist response_marker ''a{{ .Response }} b ''
      \<and> stop_words demo_env (demo_agent\<lparr>response_template := Some ''a{{ .Response }} b ''\<rparr>)
          = Inr [''Observation:'', ''b''])
   \<and> (stop_words demo_env (demo_agent\<lparr>response_template := Some []\<rparr>) = Inr [''Observation:'']
      \<and> (\<exists>self' ex.
            create_agent_executor demo_env (demo_agent\<lparr>response_template := Some []\<rparr>) None
              = Inr self'
          \<and> agent_executor self' = Some ex
          \<and> llm_bind demo_env 1 [''Observation:''] = Inr (r_llm (ex_agent ex))))"
proof -
  let ?a1 = "demo_agent\<lparr>response_template := Some ''abc''\<rparr>"
  let ?a2 = "demo_agent\<lparr>response_template := Some ''a{{ .Response }} b ''\<rparr>"
  let ?a3 = "demo_agent\<lparr>response_template := Some []\<rparr>"
  have n: "\<not> sublist response_marker ''abc''"
    by (simp add: response_marker_def sublist_Cons_right)
  have y: "sublist response_marker ''a{{ .Response }} b ''"
    by (simp add: response_marker_def sublist_Cons_right)
  have p1: "parse_tools demo_env (list_or None (tools ?a1)) = Inr [OtherTool 107, OtherTool 8]"
    using demo_parse by (simp add: demo_agent_def)
  have q1: "prompts_task_execution demo_env (i18n ?a1) (list_or None (tools ?a1))
      (system_template ?a1) (prompt_template ?a1) (response_template ?a1) = Inr 21"
    by (simp add: demo_env_def demo_agent_def)
  have r1: "prompt_partial demo_env 21 (goal ?a1) (role ?a1) (backstory ?a1) = Inr 121"
    by (simp add: demo_env_def)
  have o1: "i18n_slice demo_env (i18n ?a1) ''observation'' = Inr ''Observation:''"
    by (simp add: demo_env_def demo_slice_def)
  have t1: "response_template ?a1 = Some ''abc'' \<and> ''abc'' \<noteq> []" by simp
  from stop_words_computation [OF p1 q1 r1 o1, where t = "''abc''"] t1 n
  have 1: "create_agent_executor demo_env ?a1 None = Inl IndexError" by blast
  have p2: "parse_tools demo_env (list_or None (tools ?a2)) = Inr [OtherTool 107, OtherTool 8]"
    using demo_parse by (simp add: demo_agent_def)
  have q2: "prompts_task_execution demo_env (i18n ?a2) (list_or None (tools ?a2))
      (system_template ?a2) (prompt_template ?a2) (response_template ?a2) = Inr 21"
    by (simp add: demo_env_def demo_agent_def)
  have r2: "prompt_partial demo_env 21 (goal ?a2) (role ?a2) (backstory ?a2) = Inr 121"
    by (simp add: demo_env_def)
  have o2: "i18n_slice demo_env (i18n ?a2) ''observation'' = Inr ''Observation:''"
    by (simp add: demo_env_def demo_slice_def)
  have t2: "response_template ?a2 = Some ''a{{ .Response }} b ''" by simp
  from stop_words_computation [OF p2 q2 r2 o2, where t = "''a{{ .Response }} b ''"] t2 y
  obtain mid where m: "stop_words demo_env ?a2 = Inr [''Observation:'', strip mid]" by blast
  have "stop_words demo_env ?a2 = Inr [''Observation:'', ''b'']"
    by (simp add: stop_words_def demo_env_def demo_slice_def str_split_def response_marker_def
        split_from.simps strip_def is_space_def)
  with m have 2: "stop_words demo_env ?a2 = Inr [''Observation:'', ''b'']" by simp
  have p3: "parse_tools demo_env (list_or None (tools ?a3)) = Inr [OtherTool 107, OtherTool 8]"
    using demo_parse by (simp add: demo_agent_def)
  have q3: "prompts_task_execution demo_env (i18n ?a3) (list_or None (tools ?a3))
      (system_template ?a3) (prompt_template ?a3) (response_template ?a3) = Inr 21"
    by (simp add: demo_env_def demo_agent_def)
  have r3: "prompt_partial demo_env 21 (goal ?a3) (role ?a3) (backstory ?a3) = Inr 121"
    by (simp add: demo_env_def)
  have o3: "i18n_slice demo_env (i18n ?a3) ''observation'' = Inr ''Observation:''"
    by (simp add: demo_env_def demo_slice_def)
  have t3: "response_template ?a3 = Some []" by simp
  obtain s where c3: "create_agent_executor demo_env ?a3 None = Inr s"
    using demo_create_empty_template by blast
  from stop_words_computation [OF p3 q3 r3 o3] t3 c3
  have 3: "stop_words demo_env ?a3 = Inr [''Observation:'']
      \<and> (\<exists>ex. agent_executor s = Some ex
            \<and> llm_bind demo_env (llm ?a3) [''Observation:''] = Inr (r_llm (ex_agent ex)))"
    by blast
  have "llm ?a3 = 1" by (simp add: demo_agent_def)
  with 3 c3 have e3: "stop_words demo_env ?a3 = Inr [''Observation:'']
      \<and> (\<exists>self' ex. create_agent_executor demo_env ?a3 None = Inr self'
          \<and> agent_executor self' = Some ex
          \<and> llm_bind demo_env 1 [''Observation:''] = Inr (r_llm (ex_agent ex)))"
    by auto
  from n 1 y 2 e3 show ?thesis by blast
qed

theorem stop_words_counterexample:
  "stop_words demo_env
     (demo_agent\<lparr>response_template := Some ''a{{ .Response }} b {{ .Response }}c''\<rparr>)
     = Inr [''Observation:'', ''b'']
   \<and> strip '' b {{ .Response }}c'' = ''b {{ .Response }}c''
   \<and> ''b'' \<noteq> ''b {{ .Response }}c''
   \<and> stop_words demo_env (demo_agent\<lparr>response_template := Some []\<rparr>) = Inr [''Observation:'']
   \<and> prompt_of (create_agent_executor demo_env (demo_agent\<lparr>response_template := Some []\<rparr>)
        None) = Some 121"
  by (simp add: stop_words_def demo_env_def demo_slice_def str_split_def response_marker_def
      split_from.simps strip_def is_space_def create_agent_executor_def new_executor_def
      assemble_def demo_agent_def parse_tools_def Let_def)

subsection \<open>Exceptions\<close>

lemma convert_loop_stops:
  assumes "to_langchain env x = Inl e"
  shows "\<forall>y. CrewAITool y \<in> set pre \<longrightarrow> (\<exists>t. to_langchain env y = Inr t)
         \<Longrightarrow> \<exists>acc'. convert_loop env (pre @ CrewAITool x # post) acc = (acc', Some e)"
proof (induction pre arbitrary: acc)
  case Nil
  with assms show ?case by simp
next
  case (Cons u pre)
  show ?case
  proof (cases u)
    case (CrewAITool y)
    with Cons.prems obtain t where "to_langchain env y = Inr t" by auto
    with CrewAITool Cons show ?thesis by simp
  next
    case (OtherTool y)
    with Cons show ?thesis by simp
  qed
qed

lemma parse_tools_conversion_raises:
  assumes "crewai_tools_import env = None"
    and "\<forall>y. CrewAITool y \<in> set pre \<longrightarrow> (\<exists>t. to_langchain env y = Inr t)"
    and "to_langchain env x = Inl e" and "e \<noteq> ModuleNotFoundError"
  shows "parse_tools env (Some (pre @ CrewAITool x # post)) = Inl e"
proof -
  from convert_loop_stops [OF assms(3,2), of post "[]"] obtain acc' where
    "convert_loop env (pre @ CrewAITool x # post) [] = (acc', Some e)" by blast
  with assms(1,4) show ?thesis by (simp add: parse_tools_def on_exception_def)
qed

lemma parse_tools_import_raises:
  "crewai_tools_import env = Some e \<Longrightarrow> e \<noteq> ModuleNotFoundError
   \<Longrightarrow> parse_tools env ta = Inl e"
  by (simp add: parse_tools_def on_exception_def)

lemma names_of_raises:
  assumes "tool_name env t = Inl e"
  shows "\<forall>u \<in> set pre. \<exists>n. tool_name env u = Inr n
         \<Longrightarrow> names_of env (pre @ t # post) = Inl e"
proof (induction pre)
  case Nil
  with assms show ?case by simp
next
  case (Cons u pre)
  then obtain n where "tool_name env u = Inr n" by auto
  with Cons show ?case by simp
qed

lemma tools_names_raises:
  "tool_name env t = Inl e \<Longrightarrow> \<forall>u \<in> set pre. \<exists>n. tool_name env u = Inr n
   \<Longrightarrow> tools_names env (pre @ t # post) = Inl e"
  by (simp add: tools_names_def names_of_raises)

lemma stop_words_slice_raises:
  "i18n_slice env (i18n self) ''observation'' = Inl e \<Longrightarrow> stop_words env self = Inl e"
  by (simp add: stop_words_def)

lemma parse_tools_conversion_caught:
  assumes "crewai_tools_import env = None"
    and "\<forall>y. CrewAITool y \<in> set pre \<longrightarrow> (\<exists>t. to_langchain env y = Inr t)"
    and "to_langchain env x = Inl ModuleNotFoundError"
  shows "\<exists>r. parse_tools env (Some (pre @ CrewAITool x # post)) = Inr r"
proof -
  from convert_loop_stops [OF assms(3,2), of post "[]"] obtain acc' where
    "convert_loop env (pre @ CrewAITool x # post) [] = (acc', Some ModuleNotFoundError)"
    by blast
  with assms(1) show ?thesis by (simp add: parse_tools_def on_exception_def)
qed

lemma parse_tools_never_module_not_found:
  "parse_tools env tools_arg \<noteq> Inl ModuleNotFoundError"
  by (auto simp: parse_tools_def on_exception_def split: option.splits prod.splits)

lemma reset_tools_handler_returns:
  "\<forall>h. tools_handler self = Some h \<longrightarrow> reset_last_used_tool env h = None
   \<Longrightarrow> reset_tools_handler env self
       = Inr (case tools_handler self of None \<Rightarrow> [] | Some h \<Rightarrow> [ResetLastUsedTool h])"
  by (simp add: reset_tools_handler_def split: option.splits)

lemma execute_task_reaches_run:
  assumes "\<forall>h. tools_handler self = Some h \<longrightarrow> reset_last_used_tool env h = None"
    and "base_prompt env self task ctx = Inr b"
    and "memory_step env self task ctx b = Inr p"
    and "parse_tools env (list_or (list_or ta (tools self)) (Some [])) = Inr parsed"
    and "create_agent_executor env self (list_or ta (tools self)) = Inr created"
  shows "execute_task env self task ctx ta
       = run_executor env created task p parsed
           (case tools_handler self of None \<Rightarrow> [] | Some h \<Rightarrow> [ResetLastUsedTool h])"
  using assms(2-5) reset_tools_handler_returns [OF assms(1)]
  by (simp add: execute_task_def Let_def)

text \<open>
  C3, as amended. \<open>_parse_tools\<close> catches the \<open>ModuleNotFoundError\<close> raised in its \<open>try\<close>
  block, by the import of \<open>crewai_tools\<close> or by a \<open>to_langchain()\<close>, and returns; when the
  import raised it, the tools are returned as they were given; a \<open>ModuleNotFoundError\<close> never
  leaves \<open>_parse_tools\<close>. Every other exception of a collaborator reaches the caller
  unchanged, each when the calls before it have returned: in \<open>_parse_tools\<close>, any other
  exception of the import or of the first failing \<open>to_langchain()\<close>; in
  \<open>create_agent_executor\<close>, any exception of \<open>_parse_tools\<close>, \<open>Prompts\<close>, \<open>partial\<close>,
  \<open>i18n.slice\<close>, \<open>llm.bind\<close>, the three \<open>|\<close> of line 220, \<open>CrewAgentParser\<close>,
  \<open>RunnableAgent\<close> or \<open>CrewAgentExecutor\<close>; in \<open>execute_task\<close>, any exception of the
  assignment to \<open>last_used_tool\<close>, of \<open>task.prompt\<close>, \<open>i18n.slice\<close>, \<open>format\<close>,
  \<open>build_context_for_task\<close>, \<open>_parse_tools\<close>, \<open>create_agent_executor\<close>, the four assignments
  to the executor's attributes, \<open>render_text_description\<close>, a tool's \<open>name\<close>, \<open>invoke\<close> or
  \<open>stop_rpm_counter\<close>.
\<close>

theorem exceptions_propagate:
  "(crewai_tools_import env = Some e \<and> e \<noteq> ModuleNotFoundError
      \<longrightarrow> parse_tools env tools_arg = Inl e)
   \<and> (crewai_tools_import env = Some ModuleNotFoundError
      \<longrightarrow> parse_tools env (Some ts) = Inr ts)
   \<and> (crewai_tools_import env = None
        \<and> (\<forall>y. CrewAITool y \<in> set pre \<longrightarrow> (\<exists>t. to_langchain env y = Inr t))
        \<and> to_langchain env x = Inl e \<and> e \<noteq> ModuleNotFoundError
      \<longrightarrow> parse_tools env (Some (pre @ CrewAITool x # post)) = Inl e)
   \<and> (crewai_tools_import env = None
        \<and> (\<forall>y. CrewAITool y \<in> set pre \<longrightarrow> (\<exists>t. to_langchain env y = Inr t))
        \<and> to_langchain env x = Inl ModuleNotFoundError
      \<longrightarrow> (\<exists>r. parse_tools env (Some (pre @ CrewAITool x # post)) = Inr r))
   \<and> parse_tools env tools_arg \<noteq> Inl ModuleNotFoundError
   \<and> (parse_tools env (list_or ta (tools self)) = Inl e
      \<longrightarrow> create_agent_executor env self ta = Inl e)
   \<and> (parse_tools env (list_or ta (tools self)) = Inr parsed_c \<longrightarrow>
        (prompts_task_execution env (i18n self) (list_or ta (tools self)) (system_template self)
           (prompt_template self) (response_template self) = Inl e
         \<longrightarrow> create_agent_executor env self ta = Inl e)
      \<and> (prompts_task_execution env (i18n self) (list_or ta (tools self)) (system_template self)
           (prompt_template self) (response_template self) = Inr prompt \<longrightarrow>
           (prompt_partial env prompt (goal self) (role self) (backstory self) = Inl e
            \<longrightarrow> create_agent_executor env self ta = Inl e)
         \<and> (prompt_partial env prompt (goal self) (role self) (backstory self) = Inr ep \<longrightarrow>
              (i18n_slice env (i18n self) ''observation'' = Inl e
               \<longrightarrow> create_agent_executor env self ta = Inl e)
            \<and> (stop_words env self = Inr sw \<longrightarrow>
                 (llm_bind env (llm self) sw = Inl e
                  \<longrightarrow> create_agent_executor env self ta = Inl e)
               \<and> (llm_bind env (llm self) sw = Inr bound \<longrightarrow>
                    (pipe_prompt env ep = Some e
                     \<longrightarrow> create_agent_executor env self ta = Inl e)
                  \<and> (pipe_prompt env ep = None \<longrightarrow>
                       (pipe_llm env ep bound = Some e
                        \<longrightarrow> create_agent_executor env self ta = Inl e)
                     \<and> (pipe_llm env ep bound = None \<longrightarrow>
                          (crew_agent_parser env = Some e
                           \<longrightarrow> create_agent_executor env self ta = Inl e)
                        \<and> (crew_agent_parser env = None \<longrightarrow>
                             (pipe_parser env ep bound = Some e
                              \<longrightarrow> create_agent_executor env self ta = Inl e)
                           \<and> (pipe_parser env ep bound = None \<longrightarrow>
                                (runnable_agent env
                                   \<lparr>r_args = agent_args, r_prompt = ep, r_llm = bound,
                                    r_parser = Self\<rparr> = Some e
                                 \<longrightarrow> create_agent_executor env self ta = Inl e)
                              \<and> (runnable_agent env
                                   \<lparr>r_args = agent_args, r_prompt = ep, r_llm = bound,
                                    r_parser = Self\<rparr> = None
                                   \<and> crew_agent_executor env
                                       (new_executor self parsed_c (list_or ta (tools self))
                                          ep bound) = Some e
                                 \<longrightarrow> create_agent_executor env self ta = Inl e))))))))))
   \<and> (tools_handler self = Some h \<and> reset_last_used_tool env h = Some e
      \<longrightarrow> fst (execute_task env self task ctx ta) = Inl e)
   \<and> ((\<forall>h. tools_handler self = Some h \<longrightarrow> reset_last_used_tool env h = None) \<longrightarrow>
     (task_prompt env task = Inl e \<longrightarrow> fst (execute_task env self task ctx ta) = Inl e)
   \<and> (task_prompt env task = Inr tp \<and> ctx = Some c \<and> c \<noteq> [] \<longrightarrow>
        (i18n_slice env (i18n self) ''task_with_context'' = Inl e
         \<longrightarrow> fst (execute_task env self task ctx ta) = Inl e)
      \<and> (i18n_slice env (i18n self) ''task_with_context'' = Inr tw
           \<and> str_format env tw [(''task'', tp), (''context'', c)] = Inl e
         \<longrightarrow> fst (execute_task env self task ctx ta) = Inl e))
   \<and> (base_prompt env self task ctx = Inr b \<longrightarrow>
        (crew self = Some cr \<and> memory cr \<longrightarrow>
           (build_context_for_task env
              (short_term_memory cr, long_term_memory cr, entity_memory cr) task ctx = Inl e
            \<longrightarrow> fst (execute_task env self task ctx ta) = Inl e)
         \<and> (build_context_for_task env
              (short_term_memory cr, long_term_memory cr, entity_memory cr) task ctx = Inr mem
              \<and> strip mem \<noteq> [] \<longrightarrow>
              (i18n_slice env (i18n self) ''memory'' = Inl e
               \<longrightarrow> fst (execute_task env self task ctx ta) = Inl e)
            \<and> (i18n_slice env (i18n self) ''memory'' = Inr tm
                 \<and> str_format env tm [(''memory'', mem)] = Inl e
               \<longrightarrow> fst (execute_task env self task ctx ta) = Inl e)))
      \<and> (memory_step env self task ctx b = Inr p \<longrightarrow>
           (parse_tools env (list_or (list_or ta (tools self)) (Some [])) = Inl e
            \<longrightarrow> fst (execute_task env self task ctx ta) = Inl e)
         \<and> (parse_tools env (list_or (list_or ta (tools self)) (Some [])) = Inr parsed \<longrightarrow>
              (create_agent_executor env self (list_or ta (tools self)) = Inl e
               \<longrightarrow> fst (execute_task env self task ctx ta) = Inl e)
            \<and> (create_agent_executor env self (list_or ta (tools self)) = Inr created
                 \<and> agent_executor created = Some built \<longrightarrow>
                 (executor_setattr env ''tools'' (built\<lparr>ex_tools := parsed\<rparr>) = Some e
                  \<longrightarrow> fst (execute_task env self task ctx ta) = Inl e)
               \<and> (executor_setattr env ''tools'' (built\<lparr>ex_tools := parsed\<rparr>) = None \<longrightarrow>
                 (executor_setattr env ''task''
                    (built\<lparr>ex_tools := parsed, ex_task := Some task\<rparr>) = Some e
                  \<longrightarrow> fst (execute_task env self task ctx ta) = Inl e)
               \<and> (executor_setattr env ''task''
                    (built\<lparr>ex_tools := parsed, ex_task := Some task\<rparr>) = None \<longrightarrow>
                 (render_text_description env parsed = Inl e
                  \<longrightarrow> fst (execute_task env self task ctx ta) = Inl e)
               \<and> (render_text_description env parsed = Inr description \<longrightarrow>
                 (executor_setattr env ''tools_description''
                    (built\<lparr>ex_tools := parsed, ex_task := Some task,
                           ex_tools_description := Some description\<rparr>) = Some e
                  \<longrightarrow> fst (execute_task env self task ctx ta) = Inl e)
               \<and> (executor_setattr env ''tools_description''
                    (built\<lparr>ex_tools := parsed, ex_task := Some task,
                           ex_tools_description := Some description\<rparr>) = None \<longrightarrow>
                 (parsed = before @ t # after
                    \<and> (\<forall>u \<in> set before. \<exists>n. tool_name env u = Inr n)
                    \<and> tool_name env t = Inl e
                  \<longrightarrow> fst (execute_task env self task ctx ta) = Inl e)
               \<and> (tools_names env parsed = Inr names \<longrightarrow>
                 (executor_setattr env ''tools_names''
                    (built\<lparr>ex_tools := parsed, ex_task := Some task,
                           ex_tools_description := Some description,
                           ex_tools_names := Some names\<rparr>) = Some e
                  \<longrightarrow> fst (execute_task env self task ctx ta) = Inl e)
               \<and> (executor_setattr env ''tools_names''
                    (built\<lparr>ex_tools := parsed, ex_task := Some task,
                           ex_tools_description := Some description,
                           ex_tools_names := Some names\<rparr>) = None \<longrightarrow>
                 (executor_invoke env
                    (built\<lparr>ex_tools := parsed, ex_task := Some task,
                           ex_tools_description := Some description,
                           ex_tools_names := Some names\<rparr>)
                    [(''input'', p), (''tool_names'', names), (''tools'', description)] = Inl e
                  \<longrightarrow> fst (execute_task env self task ctx ta) = Inl e)
               \<and> (executor_invoke env
                    (built\<lparr>ex_tools := parsed, ex_task := Some task,
                           ex_tools_description := Some description,
                           ex_tools_names := Some names\<rparr>)
                    [(''input'', p), (''tool_names'', names), (''tools'', description)] = Inr out
                    \<and> map_of out ''output'' = Some res
                    \<and> int_truthy (max_rpm self)
                    \<and> rpm_controller self = Some rc
                    \<and> stop_rpm_counter env rc = Some e
                  \<longrightarrow> fst (execute_task env self task ctx ta) = Inl e))))))))))))"
  apply (intro conjI impI)
  subgoal by (simp add: parse_tools_import_raises)
  subgoal by (simp add: parse_tools_import_missing)
  subgoal by (simp add: parse_tools_conversion_raises)
  subgoal by (simp add: parse_tools_conversion_caught)
  subgoal by (rule parse_tools_never_module_not_found)
  subgoal
    by (simp add: create_agent_executor_def Let_def assemble_def new_executor_def
        stop_words_slice_raises)
  subgoal
    by (simp add: create_agent_executor_def Let_def assemble_def new_executor_def
        stop_words_slice_raises)
  subgoal
    by (simp add: create_agent_executor_def Let_def assemble_def new_executor_def
        stop_words_slice_raises)
  subgoal
    by (simp add: create_agent_executor_def Let_def assemble_def new_executor_def
        stop_words_slice_raises)
  subgoal
    by (simp add: create_agent_executor_def Let_def assemble_def new_executor_def
        stop_words_slice_raises)
  subgoal
    by (simp add: create_agent_executor_def Let_def assemble_def new_executor_def
        stop_words_slice_raises)
  subgoal
    by (simp add: create_agent_executor_def Let_def assemble_def new_executor_def
        stop_words_slice_raises)
  subgoal
    by (simp add: create_agent_executor_def Let_def assemble_def new_executor_def
        stop_words_slice_raises)
  subgoal
    by (simp add: create_agent_executor_def Let_def assemble_def new_executor_def
        stop_words_slice_raises)
  subgoal
    by (simp add: create_agent_executor_def Let_def assemble_def new_executor_def
        stop_words_slice_raises)
  subgoal
    by (simp add: create_agent_executor_def Let_def assemble_def new_executor_def
        stop_words_slice_raises)
  subgoal by (simp add: execute_task_def reset_tools_handler_def)
  subgoal by (auto simp: execute_task_def reset_tools_handler_returns base_prompt_def)
  subgoal by (auto simp: execute_task_def reset_tools_handler_returns base_prompt_def)
  subgoal by (auto simp: execute_task_def reset_tools_handler_returns base_prompt_def)
  subgoal by (auto simp: execute_task_def reset_tools_handler_returns memory_step_def)
  subgoal by (auto simp: execute_task_def reset_tools_handler_returns memory_step_def)
  subgoal by (auto simp: execute_task_def reset_tools_handler_returns memory_step_def)
  subgoal by (simp add: execute_task_def reset_tools_handler_returns Let_def)
  subgoal by (simp add: execute_task_def reset_tools_handler_returns Let_def)
  subgoal
    by (simp add: execute_task_reaches_run [where b = b and p = p and parsed = parsed
          and created = created] run_executor_def Let_def)
  subgoal
    by (simp add: execute_task_reaches_run [where b = b and p = p and parsed = parsed
          and created = created] run_executor_def Let_def)
  subgoal
    by (simp add: execute_task_reaches_run [where b = b and p = p and parsed = parsed
          and created = created] run_executor_def Let_def)
  subgoal
    by (simp add: execute_task_reaches_run [where b = b and p = p and parsed = parsed
          and created = created] run_executor_def Let_def)
  subgoal
    by (simp add: execute_task_reaches_run [where b = b and p = p and parsed = parsed
          and created = created] run_executor_def Let_def tools_names_raises)
  subgoal
    by (simp add: execute_task_reaches_run [where b = b and p = p and parsed = parsed
          and created = created] run_executor_def Let_def)
  subgoal
    by (simp add: execute_task_reaches_run [where b = b and p = p and parsed = parsed
          and created = created] run_executor_def Let_def)
  subgoal
    using create_agent_executor_keeps [of env self "list_or ta (tools self)" created]
    by (simp add: execute_task_reaches_run [where b = b and p = p and parsed = parsed
          and created = created] run_executor_def Let_def finish_task_def)
  done

lemma demo_create_own:
  "\<exists>s. create_agent_executor (demo_env\<lparr>stop_rpm_counter := \<lambda>c. Some (ExternalError 4)\<rparr>)
         demo_agent (list_or None (tools demo_agent)) = Inr s"
  by (simp add: create_agent_executor_def new_executor_def assemble_def demo_env_def
      demo_agent_def parse_tools_def stop_words_def demo_slice_def Let_def)

theorem exceptions_propagate_witness:
  "parse_tools (demo_env\<lparr>crewai_tools_import := Some (ExternalError 1)\<rparr>) (Some [OtherTool 8])
     = Inl (ExternalError 1)
   \<and> parse_tools (demo_env\<lparr>crewai_tools_import := Some ModuleNotFoundError\<rparr>)
       (Some [CrewAITool 7]) = Inr [CrewAITool 7]
   \<and> parse_tools
       (demo_env\<lparr>to_langchain := \<lambda>x. if x = 7 then Inl (ExternalError 2) else Inr (OtherTool x)\<rparr>)
       (Some ([OtherTool 8] @ CrewAITool 7 # [])) = Inl (ExternalError 2)
   \<and> (\<exists>r. parse_tools
         (demo_env\<lparr>to_langchain :=
            \<lambda>x. if x = 7 then Inl ModuleNotFoundError else Inr (OtherTool x)\<rparr>)
         (Some ([OtherTool 8] @ CrewAITool 7 # [])) = Inr r)
   \<and> create_agent_executor (demo_env\<lparr>crew_agent_executor := \<lambda>ex. Some (ExternalError 3)\<rparr>)
       demo_agent None = Inl (ExternalError 3)
   \<and> fst (execute_task (demo_env\<lparr>reset_last_used_tool := \<lambda>h. Some (ExternalError 6)\<rparr>)
            demo_agent 50 None None) = Inl (ExternalError 6)
   \<and> fst (execute_task (demo_env\<lparr>task_prompt := \<lambda>t. Inl (ExternalError 5)\<rparr>) demo_agent 50
            None None) = Inl (ExternalError 5)
   \<and> fst (execute_task (demo_env\<lparr>stop_rpm_counter := \<lambda>c. Some (ExternalError 4)\<rparr>) demo_agent 50
            None None) = Inl (ExternalError 4)"
proof -
  let ?e1 = "demo_env\<lparr>crewai_tools_import := Some (ExternalError 1)\<rparr>"
  let ?e2 = "demo_env\<lparr>crewai_tools_import := Some ModuleNotFoundError\<rparr>"
  let ?e3 = "demo_env\<lparr>to_langchain :=
               \<lambda>x. if x = 7 then Inl (ExternalError 2) else Inr (OtherTool x)\<rparr>"
  let ?e3b = "demo_env\<lparr>to_langchain :=
               \<lambda>x. if x = 7 then Inl ModuleNotFoundError else Inr (OtherTool x)\<rparr>"
  let ?e4 = "demo_env\<lparr>crew_agent_executor := \<lambda>ex. Some (ExternalError 3)\<rparr>"
  let ?e5 = "demo_env\<lparr>task_prompt := \<lambda>t. Inl (ExternalError 5)\<rparr>"
  let ?e6 = "demo_env\<lparr>stop_rpm_counter := \<lambda>c. Some (ExternalError 4)\<rparr>"
  let ?e7 = "demo_env\<lparr>reset_last_used_tool := \<lambda>h. Some (ExternalError 6)\<rparr>"
  let ?p = "''Do it.# Useful context: old facts''"
  have 1: "parse_tools ?e1 (Some [OtherTool 8]) = Inl (ExternalError 1)"
    using exceptions_propagate [where env = ?e1 and e = "ExternalError 1"
        and tools_arg = "Some [OtherTool 8]"]
    by (simp add: demo_env_def)
  have 2: "parse_tools ?e2 (Some [CrewAITool 7]) = Inr [CrewAITool 7]"
    using exceptions_propagate [where env = ?e2 and ts = "[CrewAITool 7]"]
    by (simp add: demo_env_def)
  have 3: "parse_tools ?e3 (Some ([OtherTool 8] @ CrewAITool 7 # [])) = Inl (ExternalError 2)"
    using exceptions_propagate [where env = ?e3 and e = "ExternalError 2"
        and pre = "[OtherTool 8]" and x = 7 and post = "[]"]
    by (simp add: demo_env_def)
  have 4: "\<exists>r. parse_tools ?e3b (Some ([OtherTool 8] @ CrewAITool 7 # [])) = Inr r"
    using exceptions_propagate [where env = ?e3b and pre = "[OtherTool 8]" and x = 7
        and post = "[]"]
    by (simp add: demo_env_def)
  have 5: "create_agent_executor ?e4 demo_agent None = Inl (ExternalError 3)"
    using exceptions_propagate [where env = ?e4 and self = demo_agent and ta = None
        and e = "ExternalError 3" and parsed_c = "[OtherTool 107, OtherTool 8]"
        and prompt = 21 and ep = 121 and sw = "[''Observation:'']" and bound = 2]
    by (simp add: demo_env_def demo_agent_def parse_tools_def stop_words_def demo_slice_def)
  have 6: "fst (execute_task ?e7 demo_agent 50 None None) = Inl (ExternalError 6)"
    using exceptions_propagate [where env = ?e7 and self = demo_agent and task = 50
        and ctx = None and ta = None and e = "ExternalError 6" and h = 9]
    by (simp add: demo_env_def demo_agent_def)
  have 7: "fst (execute_task ?e5 demo_agent 50 None None) = Inl (ExternalError 5)"
    using exceptions_propagate [where env = ?e5 and self = demo_agent and task = 50
        and ctx = None and ta = None and e = "ExternalError 5"]
    by (simp add: demo_env_def)
  obtain s where c: "create_agent_executor ?e6 demo_agent (list_or None (tools demo_agent))
      = Inr s"
    using demo_create_own by blast
  from create_agent_executor_success [OF c] obtain built where x: "agent_executor s = Some built"
    by auto
  have rs: "\<forall>h. tools_handler demo_agent = Some h \<longrightarrow> reset_last_used_tool ?e6 h = None"
    by (simp add: demo_env_def)
  have b: "base_prompt ?e6 demo_agent 50 None = Inr ''Do it.''"
    by (simp add: base_prompt_def demo_env_def)
  have m: "memory_step ?e6 demo_agent 50 None ''Do it.'' = Inr ?p"
    by (simp add: memory_step_def demo_env_def demo_agent_def demo_slice_def strip_def
        is_space_def format_fields_def)
  have ps: "parse_tools ?e6 (list_or (list_or None (tools demo_agent)) (Some []))
      = Inr [OtherTool 107, OtherTool 8]"
    by (simp add: parse_tools_def demo_env_def demo_agent_def)
  have sa: "\<And>name ex. executor_setattr ?e6 name ex = None"
    by (simp add: demo_env_def)
  have rd: "render_text_description ?e6 [OtherTool 107, OtherTool 8] = Inr ''tt''"
    by (simp add: demo_env_def)
  have tn: "tools_names ?e6 [OtherTool 107, OtherTool 8] = Inr ''o, o''"
    by (simp add: tools_names_def demo_env_def)
  have iv: "executor_invoke ?e6
      (built\<lparr>ex_tools := [OtherTool 107, OtherTool 8], ex_task := Some 50,
             ex_tools_description := Some ''tt'', ex_tools_names := Some ''o, o''\<rparr>)
      [(''input'', ?p), (''tool_names'', ''o, o''), (''tools'', ''tt'')] = Inr [(''output'', ?p)]"
    by (simp add: demo_env_def)
  have r: "int_truthy (max_rpm demo_agent)" "rpm_controller demo_agent = Some 10"
    "stop_rpm_counter ?e6 10 = Some (ExternalError 4)"
    "map_of [(''output'', ?p)] ''output'' = Some ?p"
    by (simp_all add: demo_agent_def demo_env_def)
  have 8: "fst (execute_task ?e6 demo_agent 50 None None) = Inl (ExternalError 4)"
    using exceptions_propagate [where env = ?e6 and self = demo_agent and task = 50
        and ctx = None and ta = None and e = "ExternalError 4" and b = "''Do it.''"
        and p = ?p and parsed = "[OtherTool 107, OtherTool 8]" and created = s
        and built = built and description = "''tt''" and names = "''o, o''"
        and out = "[(''output'', ?p)]" and res = ?p and rc = 10]
      rs b m ps c x sa rd tn iv r
    by simp
  from 1 2 3 4 5 6 7 8 show ?thesis by (intro conjI)
qed

theorem import_error_caught_counterexample:
  "crewai_tools_import (demo_env\<lparr>crewai_tools_import := Some ModuleNotFoundError\<rparr>)
     = Some ModuleNotFoundError
   \<and> parse_tools (demo_env\<lparr>crewai_tools_import := Some ModuleNotFoundError\<rparr>)
       (Some [CrewAITool 7, OtherTool 8]) = Inr [CrewAITool 7, OtherTool 8]
   \<and> fst (execute_task (demo_env\<lparr>crewai_tools_import := Some ModuleNotFoundError\<rparr>)
            demo_agent 50 None None) = Inr ''Do it.# Useful context: old facts''"
  by (simp add: execute_task_def reset_tools_handler_def run_executor_def finish_task_def
      base_prompt_def memory_step_def tools_names_def create_agent_executor_def
      new_executor_def assemble_def demo_env_def demo_agent_def parse_tools_def
      stop_words_def demo_slice_def Let_def strip_def is_space_def format_fields_def
      on_exception_def)

end
